theory Spec2Isabelle
  imports Complex_Main "HOL-Library.Multiset"
begin

section \<open>JavaScript numbers\<close>

text \<open>
  Every coordinate, bound and zoom level of the program is a JavaScript \<open>number\<close>.
  The code relies on the non-finite values: the bounds scan starts from
  \<open>Infinity\<close> and \<open>-Infinity\<close>, \<open>360 / 0\<close> is \<open>Infinity\<close>, and a missing array
  entry turns into \<open>NaN\<close>. The type below keeps these three values apart from the
  finite numbers. The operations on it give the exact result on finite operands and the
  result of the language on the others; the rounding of a double comes on top of them
  (next section). There is one zero, read as \<open>+0\<close>: the only divisor of the program
  that can be zero is the result of \<open>Math.abs\<close>; the others are nonzero constants,
  \<open>Math.PI\<close>, and a cosine, which no double makes zero.
\<close>

datatype number = NaN | Infinity | NegInfinity | Fin real

instantiation number :: "{plus, minus, uminus, times, inverse, ord}"
begin

fun uminus_number :: "number \<Rightarrow> number" where
  "uminus_number NaN = NaN"
| "uminus_number Infinity = NegInfinity"
| "uminus_number NegInfinity = Infinity"
| "uminus_number (Fin a) = Fin (- a)"

fun plus_number :: "number \<Rightarrow> number \<Rightarrow> number" where
  "plus_number NaN _ = NaN"
| "plus_number _ NaN = NaN"
| "plus_number Infinity NegInfinity = NaN"
| "plus_number NegInfinity Infinity = NaN"
| "plus_number Infinity _ = Infinity"
| "plus_number _ Infinity = Infinity"
| "plus_number NegInfinity _ = NegInfinity"
| "plus_number _ NegInfinity = NegInfinity"
| "plus_number (Fin a) (Fin b) = Fin (a + b)"

definition minus_number :: "number \<Rightarrow> number \<Rightarrow> number" where
  "minus_number a b = a + (- b)"

fun times_number :: "number \<Rightarrow> number \<Rightarrow> number" where
  "times_number NaN _ = NaN"
| "times_number _ NaN = NaN"
| "times_number (Fin a) (Fin b) = Fin (a * b)"
| "times_number Infinity Infinity = Infinity"
| "times_number NegInfinity NegInfinity = Infinity"
| "times_number Infinity NegInfinity = NegInfinity"
| "times_number NegInfinity Infinity = NegInfinity"
| "times_number Infinity (Fin b) =
     (if b = 0 then NaN else if 0 < b then Infinity else NegInfinity)"
| "times_number NegInfinity (Fin b) =
     (if b = 0 then NaN else if 0 < b then NegInfinity else Infinity)"
| "times_number (Fin a) Infinity =
     (if a = 0 then NaN else if 0 < a then Infinity else NegInfinity)"
| "times_number (Fin a) NegInfinity =
     (if a = 0 then NaN else if 0 < a then NegInfinity else Infinity)"

fun divide_number :: "number \<Rightarrow> number \<Rightarrow> number" where
  "divide_number NaN _ = NaN"
| "divide_number _ NaN = NaN"
| "divide_number (Fin a) (Fin b) =
     (if b \<noteq> 0 then Fin (a / b)
      else if a = 0 then NaN else if 0 < a then Infinity else NegInfinity)"
| "divide_number (Fin a) Infinity = Fin 0"
| "divide_number (Fin a) NegInfinity = Fin 0"
| "divide_number Infinity (Fin b) = (if 0 \<le> b then Infinity else NegInfinity)"
| "divide_number NegInfinity (Fin b) = (if 0 \<le> b then NegInfinity else Infinity)"
| "divide_number _ _ = NaN"

text \<open>The class of \<open>/\<close> asks for a reciprocal as well; the program has none, it is \<open>1 / a\<close>.\<close>

definition inverse_number :: "number \<Rightarrow> number" where
  "inverse_number a = divide (Fin 1) a"

fun less_eq_number :: "number \<Rightarrow> number \<Rightarrow> bool" where
  "less_eq_number NaN _ = False"
| "less_eq_number _ NaN = False"
| "less_eq_number NegInfinity _ = True"
| "less_eq_number _ Infinity = True"
| "less_eq_number Infinity _ = False"
| "less_eq_number _ NegInfinity = False"
| "less_eq_number (Fin a) (Fin b) = (a \<le> b)"

fun less_number :: "number \<Rightarrow> number \<Rightarrow> bool" where
  "less_number NaN _ = False"
| "less_number _ NaN = False"
| "less_number (Fin a) (Fin b) = (a < b)"
| "less_number Infinity _ = False"
| "less_number _ NegInfinity = False"
| "less_number NegInfinity _ = True"
| "less_number _ Infinity = True"

instance ..

end

text \<open>\<open>a === b\<close> on numbers: \<open>NaN\<close> equals nothing, itself included.\<close>

definition strict_eq :: "number \<Rightarrow> number \<Rightarrow> bool" where
  "strict_eq a b = (a \<noteq> NaN \<and> b \<noteq> NaN \<and> a = b)"

fun Math_abs :: "number \<Rightarrow> number" where
  "Math_abs NaN = NaN"
| "Math_abs Infinity = Infinity"
| "Math_abs NegInfinity = Infinity"
| "Math_abs (Fin a) = Fin \<bar>a\<bar>"

fun Math_min :: "number \<Rightarrow> number \<Rightarrow> number" where
  "Math_min NaN _ = NaN"
| "Math_min _ NaN = NaN"
| "Math_min NegInfinity _ = NegInfinity"
| "Math_min _ NegInfinity = NegInfinity"
| "Math_min Infinity b = b"
| "Math_min a Infinity = a"
| "Math_min (Fin a) (Fin b) = Fin (min a b)"

fun Math_max :: "number \<Rightarrow> number \<Rightarrow> number" where
  "Math_max NaN _ = NaN"
| "Math_max _ NaN = NaN"
| "Math_max Infinity _ = Infinity"
| "Math_max _ Infinity = Infinity"
| "Math_max NegInfinity b = b"
| "Math_max a NegInfinity = a"
| "Math_max (Fin a) (Fin b) = Fin (max a b)"

fun Math_floor :: "number \<Rightarrow> number" where
  "Math_floor (Fin a) = Fin (of_int \<lfloor>a\<rfloor>)"
| "Math_floor a = a"

section \<open>The arithmetic of doubles\<close>

text \<open>
  The numbers of the program are doubles. An arithmetic operation on finite operands
  delivers the double nearest to the exact result, infinite on overflow: \<open>rnd\<close>. The
  functions of \<open>Math\<close> deliver an approximation that the engine chooses; the fields
  \<open>log2F\<close>, \<open>logF\<close>, \<open>tanF\<close>, \<open>cosF\<close> and \<open>pow2F\<close> are \<open>Math.log2\<close>,
  \<open>Math.log\<close>, \<open>Math.tan\<close>, \<open>Math.cos\<close> and \<open>Math.pow(2, _)\<close> on the finite arguments
  where the language does not fix the result. They are parameters of the functions that
  compute coordinates, zoom levels and tile indices. The bounds scan and the geometry
  of the plane keep exact results: what is proved of them rests on the order and on
  \<open>NaN\<close> alone.
\<close>

record machine =
  rnd :: "real \<Rightarrow> number"
  log2F :: "real \<Rightarrow> number"
  logF :: "real \<Rightarrow> number"
  tanF :: "real \<Rightarrow> number"
  cosF :: "real \<Rightarrow> number"
  pow2F :: "real \<Rightarrow> number"

text \<open>The result of an operation as the machine delivers it.\<close>

fun rounded :: "machine \<Rightarrow> number \<Rightarrow> number" where
  "rounded fp (Fin a) = rnd fp a"
| "rounded fp a = a"

fun Math_log2 :: "machine \<Rightarrow> number \<Rightarrow> number" where
  "Math_log2 fp NaN = NaN"
| "Math_log2 fp Infinity = Infinity"
| "Math_log2 fp NegInfinity = NaN"
| "Math_log2 fp (Fin a) =
     (if a < 0 then NaN else if a = 0 then NegInfinity else log2F fp a)"

fun Math_log :: "machine \<Rightarrow> number \<Rightarrow> number" where
  "Math_log fp NaN = NaN"
| "Math_log fp Infinity = Infinity"
| "Math_log fp NegInfinity = NaN"
| "Math_log fp (Fin a) =
     (if a < 0 then NaN else if a = 0 then NegInfinity else logF fp a)"

fun Math_tan :: "machine \<Rightarrow> number \<Rightarrow> number" where
  "Math_tan fp (Fin a) = tanF fp a"
| "Math_tan fp _ = NaN"

fun Math_cos :: "machine \<Rightarrow> number \<Rightarrow> number" where
  "Math_cos fp (Fin a) = cosF fp a"
| "Math_cos fp _ = NaN"

text \<open>\<open>Math.pow(2, z)\<close>, the only use of \<open>Math.pow\<close>.\<close>

fun Math_pow2 :: "machine \<Rightarrow> number \<Rightarrow> number" where
  "Math_pow2 fp NaN = NaN"
| "Math_pow2 fp Infinity = Infinity"
| "Math_pow2 fp NegInfinity = Fin 0"
| "Math_pow2 fp (Fin z) = pow2F fp z"

text \<open>\<open>Math.PI\<close> is the double nearest to \<open>pi\<close>.\<close>

definition Math_PI :: "machine \<Rightarrow> number" where
  "Math_PI fp = rnd fp pi"

section \<open>coordinateTransform.ts\<close>

record latlon =
  lat :: number
  lon :: number

definition transformToLatLon ::
  "machine \<Rightarrow> number \<Rightarrow> number \<Rightarrow> number \<Rightarrow> number \<Rightarrow> latlon" where
  "transformToLatLon fp x y centerLat centerLon =
     (let meterPerDegreeLat = Fin 111320;
          meterPerDegreeLon = Fin 91290;
          deltaLat = rounded fp (y / meterPerDegreeLat);
          deltaLon = rounded fp (x / meterPerDegreeLon)
      in \<lparr>lat = rounded fp (centerLat + deltaLat), lon = rounded fp (centerLon + deltaLon)\<rparr>)"

text \<open>
  \<open>calculateZoomLevel\<close> reads only \<open>southwest\<close> and \<open>northeast\<close> of its argument and
  is called with the full result of \<open>calculateLatLonBounds\<close>: the record with the
  center extends the one without.
\<close>

record corners =
  southwest :: latlon
  northeast :: latlon

record bounds = corners +
  center :: latlon

definition calculateLatLonBounds ::
  "machine \<Rightarrow> number \<Rightarrow> number \<Rightarrow> number \<Rightarrow> number \<Rightarrow> number \<Rightarrow> number \<Rightarrow> bounds" where
  "calculateLatLonBounds fp minX maxX minY maxY centerLat centerLon =
     (let sw = transformToLatLon fp minX minY centerLat centerLon;
          ne = transformToLatLon fp maxX maxY centerLat centerLon
      in \<lparr>southwest = sw, northeast = ne,
          center = \<lparr>lat = rounded fp (rounded fp (lat sw + lat ne) / Fin 2),
                    lon = rounded fp (rounded fp (lon sw + lon ne) / Fin 2)\<rparr>\<rparr>)"

definition calculateZoomLevel ::
  "machine \<Rightarrow> 'a corners_scheme \<Rightarrow> number \<Rightarrow> number \<Rightarrow> number" where
  "calculateZoomLevel fp bnds width height =
     (let latDiff = Math_abs (rounded fp (lat (northeast bnds) - lat (southwest bnds)));
          lonDiff = Math_abs (rounded fp (lon (northeast bnds) - lon (southwest bnds)));
          latZoom = rounded fp (Math_log2 fp (rounded fp (Fin 360 / latDiff))
                                - Math_log2 fp (rounded fp (height / Fin 256)));
          lonZoom = rounded fp (Math_log2 fp (rounded fp (Fin 360 / lonDiff))
                                - Math_log2 fp (rounded fp (width / Fin 256)));
          zoom = Math_floor (Math_min latZoom lonZoom)
      in Math_max (Fin 1) (Math_min (Fin 20) zoom))"

section \<open>loadAerialImagery.ts: the terrain file and its planar bounds\<close>

text \<open>
  The loaded document is a \<open>FeatureCollection<Polygon>\<close>: each feature has a geometry
  (which the code reads under a non-null assertion, so it may be null), whose
  \<open>coordinates\<close> are rings of points, and a point is a \<open>number[]\<close>.
\<close>

type_synonym point = "number list"

record polygon =
  coordinates :: "point list list"

record feature =
  geometry :: "polygon option"

datatype error = TypeError

text \<open>
  \<open>point[i]\<close>, as the scan uses it: an entry past the end is \<open>undefined\<close>, and
  \<open>undefined - c\<close> is \<open>NaN\<close>, as \<open>NaN - c\<close> is.
\<close>

definition index :: "point \<Rightarrow> nat \<Rightarrow> number" where
  "index p i = (if i < length p then p ! i else NaN)"

record planar =
  minX :: number
  maxX :: number
  minY :: number
  maxY :: number

definition initialBounds :: planar where
  "initialBounds = \<lparr>minX = Infinity, maxX = NegInfinity, minY = Infinity, maxY = NegInfinity\<rparr>"

text \<open>The body of the inner \<open>forEach\<close>: one point of a ring.\<close>

definition scanPoint :: "number \<times> number \<Rightarrow> planar \<Rightarrow> point \<Rightarrow> planar" where
  "scanPoint c acc p =
     (let x = index p 0 - fst c;
          y = index p 1 - snd c
      in \<lparr>minX = Math_min (minX acc) x, maxX = Math_max (maxX acc) x,
          minY = Math_min (minY acc) y, maxY = Math_max (maxY acc) y\<rparr>)"

text \<open>
  The body of the outer \<open>forEach\<close>: \<open>feature.geometry!.coordinates\<close> throws on a null
  geometry, and \<open>coordinates[0].forEach\<close> throws when there is no ring. Only the first
  ring is scanned.
\<close>

definition scanFeature :: "number \<times> number \<Rightarrow> planar \<Rightarrow> feature \<Rightarrow> error + planar" where
  "scanFeature c acc f =
     (case geometry f of
        None \<Rightarrow> Inl TypeError
      | Some g \<Rightarrow>
          (case coordinates g of
             [] \<Rightarrow> Inl TypeError
           | ring # _ \<Rightarrow> Inr (foldl (scanPoint c) acc ring)))"

fun scanFeatures :: "number \<times> number \<Rightarrow> planar \<Rightarrow> feature list \<Rightarrow> error + planar" where
  "scanFeatures c acc [] = Inr acc"
| "scanFeatures c acc (f # fs) =
     (case scanFeature c acc f of
        Inl e \<Rightarrow> Inl e
      | Inr acc' \<Rightarrow> scanFeatures c acc' fs)"

section \<open>loadAerialImagery.ts: the image URL\<close>

text \<open>
  The two environment variables the function reads; an unset variable is \<open>undefined\<close>.
  \<open>a || b\<close> is \<open>a\<close> when \<open>a\<close> is truthy, and a string is truthy when it is not empty.
\<close>

record env =
  NEXT_PUBLIC_GOOGLE_MAPS_API_KEY :: "string option"
  GOOGLE_MAPS_API_KEY :: "string option"

definition truthy :: "string option \<Rightarrow> bool" where
  "truthy v = (case v of None \<Rightarrow> False | Some t \<Rightarrow> t \<noteq> [])"

definition or_else :: "string option \<Rightarrow> string option \<Rightarrow> string option" where
  "or_else a b = (if truthy a then a else b)"

text \<open>
  A template literal turns each number into text with the language's own conversion,
  which is a parameter here (\<open>str\<close>); an interpolated string stands for itself and
  \<open>undefined\<close> reads \<open>undefined\<close>.
\<close>

definition interpolate :: "string option \<Rightarrow> string" where
  "interpolate v = (case v of None \<Rightarrow> ''undefined'' | Some t \<Rightarrow> t)"

definition tileX :: "machine \<Rightarrow> latlon \<Rightarrow> number \<Rightarrow> number" where
  "tileX fp c zoom =
     Math_floor (rounded fp (rounded fp (rounded fp (lon c + Fin 180) / Fin 360)
                             * Math_pow2 fp zoom))"

definition tileY :: "machine \<Rightarrow> latlon \<Rightarrow> number \<Rightarrow> number" where
  "tileY fp c zoom =
     (let angle = rounded fp (rounded fp (lat c * Math_PI fp) / Fin 180);
          secant = rounded fp (Fin 1 / Math_cos fp angle);
          logarithm = Math_log fp (rounded fp (Math_tan fp angle + secant))
      in Math_floor (rounded fp (rounded fp (rounded fp
           (Fin 1 - rounded fp (logarithm / Math_PI fp)) / Fin 2) * Math_pow2 fp zoom)))"

definition getAerialImageUrl ::
  "machine \<Rightarrow> env \<Rightarrow> (number \<Rightarrow> string) \<Rightarrow> bounds \<Rightarrow> number \<Rightarrow> number \<Rightarrow> number \<Rightarrow> string" where
  "getAerialImageUrl fp e str bnds zoom width height =
     (let c = center bnds;
          googleMapsApiKey = or_else (NEXT_PUBLIC_GOOGLE_MAPS_API_KEY e) (GOOGLE_MAPS_API_KEY e)
      in if truthy googleMapsApiKey then
           ''https://maps.googleapis.com/maps/api/staticmap?'' @
           ''center='' @ str (lat c) @ '','' @ str (lon c) @ ''&'' @
           ''zoom='' @ str zoom @ ''&'' @
           ''size='' @ str width @ ''x'' @ str height @ ''&'' @
           ''maptype=satellite&'' @
           ''key='' @ interpolate googleMapsApiKey
         else
           ''https://server.arcgisonline.com/ArcGIS/rest/services/World_Imagery/MapServer/tile/''
           @ str zoom @ ''/'' @ str (tileY fp c zoom) @ ''/'' @ str (tileX fp c zoom))"

section \<open>loadAerialImagery.ts: the imagery plane\<close>

text \<open>
  What the claims read of the scene graph and the control panel: the named groups of the
  scene with their children, in insertion order, and the properties the controls of the
  panel are bound to. A mesh keeps the size of its geometry, its position before the
  rotation (the height \<open>-0.5\<close> and the rotation are constants), its texture and its
  opacity. A texture is either the loaded image or the canvas drawn by the fallback,
  of which the base colour of the gradient is kept (none when the canvas gives no 2D
  context); the random rectangles are not modelled.
\<close>

datatype texture = ImageTexture string | CanvasTexture "string option"

record mesh =
  geomWidth :: number
  geomHeight :: number
  posX :: number
  posY :: number
  meshMap :: texture
  opacity :: real

type_synonym scene = "(string \<times> mesh list) list"

record job =
  jobLat :: number
  jobLon :: number
  jobBounds :: planar
  imageUrl :: string

record world =
  scene :: scene
  gui :: "string list"
  loadFileRemaining :: int
  pending :: "job list"

text \<open>\<open>scene.getObjectByName(n)\<close>: the first group of that name, if any.\<close>

definition getObjectByName :: "scene \<Rightarrow> string \<Rightarrow> mesh list option" where
  "getObjectByName sc n = map_of sc n"

text \<open>\<open>group0.add(planeMesh)\<close> on the group that \<open>getObjectByName\<close> found.\<close>

fun addChild :: "string \<Rightarrow> mesh \<Rightarrow> scene \<Rightarrow> scene" where
  "addChild n m [] = []"
| "addChild n m ((k, children) # groups) =
     (if k = n then (k, children @ [m]) # groups else (k, children) # addChild n m groups)"

text \<open>
  The last block of both \<open>createRealAerialImageryTexture\<close> and \<open>createFallbackTexture\<close>,
  the same text in each: add the plane to the group named terrain, or create the
  group and register the visibility control on the property \<open>aerialImagery\<close>.
\<close>

definition addToScene :: "mesh \<Rightarrow> world \<Rightarrow> world" where
  "addToScene planeMesh w =
     (case getObjectByName (scene w) ''terrain'' of
        Some group0 \<Rightarrow> w\<lparr>scene := addChild ''terrain'' planeMesh (scene w)\<rparr>
      | None \<Rightarrow> w\<lparr>scene := scene w @ [(''terrain'', [planeMesh])],
                   gui := gui w @ [''aerialImagery'']\<rparr>)"

definition makePlane :: "planar \<Rightarrow> texture \<Rightarrow> real \<Rightarrow> mesh" where
  "makePlane b tex op =
     \<lparr>geomWidth = maxX b - minX b, geomHeight = maxY b - minY b,
      posX = (minX b + maxX b) / Fin 2, posY = (minY b + maxY b) / Fin 2,
      meshMap = tex, opacity = op\<rparr>"

text \<open>\<open>has2d\<close>: whether \<open>canvas.getContext('2d')\<close> gave a context.\<close>

definition createFallbackTexture :: "bool \<Rightarrow> number \<Rightarrow> number \<Rightarrow> planar \<Rightarrow> world \<Rightarrow> world" where
  "createFallbackTexture has2d latitude longitude b w =
     (let baseColor =
            (if Fin 35.6 < latitude \<and> Fin 139.6 < longitude then ''#A0A0A0''
             else if Fin 35.1 < latitude \<and> Fin 136.8 < longitude then ''#8FBC8F''
             else ''#6B8E23'');
          tex = CanvasTexture (if has2d then Some baseColor else None)
      in addToScene (makePlane b tex 0.7) w)"

text \<open>
  \<open>createRealAerialImageryTexture\<close> is asynchronous. Up to its first \<open>await\<close> it runs
  inside the caller and computes the bounds, the zoom and the URL: that is the job it
  leaves pending. The rest runs later, when the texture loader has settled, with its
  outcome: the \<open>try\<close> block on success, the \<open>catch\<close> block on rejection. No
  statement of either block throws, so the rest has no error result.
\<close>

definition createRealAerialImageryTexture_start ::
  "machine \<Rightarrow> env \<Rightarrow> (number \<Rightarrow> string) \<Rightarrow> number \<Rightarrow> number \<Rightarrow> planar \<Rightarrow> job" where
  "createRealAerialImageryTexture_start fp e str latitude longitude b =
     (let bnds = calculateLatLonBounds fp (minX b) (maxX b) (minY b) (maxY b) latitude longitude;
          zoom = calculateZoomLevel fp bnds (Fin 640) (Fin 640)
      in \<lparr>jobLat = latitude, jobLon = longitude, jobBounds = b,
          imageUrl = getAerialImageUrl fp e str bnds zoom (Fin 640) (Fin 640)\<rparr>)"

datatype outcome = Resolved | Rejected

definition createRealAerialImageryTexture_resume ::
  "bool \<Rightarrow> outcome \<Rightarrow> job \<Rightarrow> world \<Rightarrow> world" where
  "createRealAerialImageryTexture_resume has2d oc j w =
     (case oc of
        Resolved \<Rightarrow> addToScene (makePlane (jobBounds j) (ImageTexture (imageUrl j)) 0.8) w
      | Rejected \<Rightarrow> createFallbackTexture has2d (jobLat j) (jobLon j) (jobBounds j) w)"

text \<open>
  The callback \<open>loadAerialImagery\<close> hands to the file loader. An exception of the scan
  leaves the callback before anything else happens. Otherwise the texture job is started
  and, in the same run, the counter is decremented.
\<close>

definition loadAerialImagery_onLoad ::
  "machine \<Rightarrow> env \<Rightarrow> (number \<Rightarrow> string) \<Rightarrow> number \<times> number \<Rightarrow> number \<Rightarrow> number
     \<Rightarrow> feature list \<Rightarrow> world \<Rightarrow> error + world" where
  "loadAerialImagery_onLoad fp e str c latitude longitude features w =
     (case scanFeatures c initialBounds features of
        Inl err \<Rightarrow> Inl err
      | Inr b \<Rightarrow>
          Inr (w\<lparr>pending := pending w @
                   [createRealAerialImageryTexture_start fp e str latitude longitude b],
                 loadFileRemaining := loadFileRemaining w - 1\<rparr>))"

section \<open>ThreeScene: the venue, the load counter and the two effects\<close>

text \<open>
  The fields of a venue descriptor that the component reads. The declaration of the type
  is not among the sources; the shape is the one of the venue \<open>NagoyaUnimall\<close> and of
  the reads in \<open>ThreeScene\<close>. The display name and the attribution of a venue play no
  part in what follows and are left out.
\<close>

record networkFiles =
  node :: string
  link :: string

record FileStructure =
  rootPath :: string
  networkFile :: "networkFiles option"
  geoFiles :: "string list"
  terrainFile :: "string option"
  center :: "(number \<times> number) option"
  coordinate :: "latlon option"

definition NagoyaUnimall :: FileStructure where
  "NagoyaUnimall =
     \<lparr>rootPath = ''/NagoyaUnimall/'',
      networkFile = Some \<lparr>node = ''UniMall_B1_Node.geojson'', link = ''UniMall_B1_Link.geojson''\<rparr>,
      geoFiles =
        [''UniMall_B1_Build_Connect.geojson'',
         ''UniMall_B1_Building.geojson'',
         ''UniMall_B1_Drawing.geojson'',
         ''UniMall_B1_Facility.geojson'',
         ''UniMall_B1_Fixture.geojson'',
         ''UniMall_B1_Floor_Connect.geojson'',
         ''UniMall_B1_Floor.geojson'',
         ''UniMall_B1_Opening.geojson'',
         ''UniMall_B1_Site.geojson'',
         ''UniMall_B1_Space.geojson'',
         ''UniMall_B1_TWSI_Line.geojson'',
         ''UniMall_B1_TWSI_Point.geojson''],
      terrainFile = None,
      center = Some (Fin (-268478.06882765563), Fin (-87917.488896069)),
      coordinate = Some \<lparr>lat = Fin 35.171494875999997, lon = Fin 136.88388259499999\<rparr>\<rparr>"

text \<open>The three constants the component derives from the descriptor, each path prefixed.\<close>

definition networkFile_paths :: "FileStructure \<Rightarrow> networkFiles option" where
  "networkFile_paths d =
     (case networkFile d of
        None \<Rightarrow> None
      | Some n \<Rightarrow> Some \<lparr>node = rootPath d @ node n, link = rootPath d @ link n\<rparr>)"

definition terrainFile_path :: "FileStructure \<Rightarrow> string option" where
  "terrainFile_path d =
     (if truthy (terrainFile d) then Some (rootPath d @ interpolate (terrainFile d)) else None)"

definition geoFiles_paths :: "FileStructure \<Rightarrow> string list" where
  "geoFiles_paths d = map (\<lambda>f. rootPath d @ f) (geoFiles d)"

text \<open>
  The initial value of the state \<open>loadFileRemaining\<close>. For an unknown venue
  \<open>geoFiles\<close> is \<open>undefined\<close> and reading its length throws.
\<close>

definition totalFileCount :: "FileStructure option \<Rightarrow> error + int" where
  "totalFileCount selectedData =
     (case selectedData of
        None \<Rightarrow> Inl TypeError
      | Some d \<Rightarrow>
          Inr (int (length (geoFiles_paths d))
               + (if networkFile_paths d \<noteq> None then 1 else 0)
               + (if truthy (terrainFile_path d) then 1 else 0)))"

text \<open>
  The effect that resolves the scene origin. It either sets the state \<open>center\<close> at once
  or starts \<open>calculateCenterPoint\<close> on the geometry files, whose result is set when it
  arrives. \<open>calculateCenterPoint\<close> is not among the sources: it is a parameter of
  \<open>resolveCenter\<close>.
\<close>

datatype centerAction =
  SetCenter "number \<times> number"
| CalculateCenterPoint "string list"

definition centerEffect :: "FileStructure option \<Rightarrow> centerAction list" where
  "centerEffect selectedData =
     (case selectedData of
        None \<Rightarrow> []
      | Some d \<Rightarrow>
          (case center d of
             Some c \<Rightarrow> [SetCenter c]
           | None \<Rightarrow> [CalculateCenterPoint (geoFiles_paths d)]))"

fun resolveCenter ::
  "(string list \<Rightarrow> number \<times> number) \<Rightarrow> number \<times> number \<Rightarrow> centerAction list \<Rightarrow> number \<times> number" where
  "resolveCenter calc c [] = c"
| "resolveCenter calc c (SetCenter p # as) = resolveCenter calc p as"
| "resolveCenter calc c (CalculateCenterPoint files # as) = resolveCenter calc (calc files) as"

text \<open>
  The effect that sets the scene up, run with the current \<open>center\<close>: the load
  operations it starts, in order. \<open>containerRef_current\<close> tells whether the container
  is mounted, \<open>rendererInit\<close> whether the awaited \<open>renderer.init()\<close> resolved (the
  loads come after it); the setter of the counter, which the guard also tests, is always
  there. \<open>getFloorNumber\<close> is not among the sources: a parameter.
\<close>

definition endsWith :: "string \<Rightarrow> string \<Rightarrow> bool" where
  "endsWith f t = (length t \<le> length f \<and> drop (length f - length t) f = t)"

datatype loadOp =
  LoadAndAddToScene string "number \<times> number" int real
| LoadNetworkFile networkFiles "number \<times> number"
| LoadTerrainFile string "number \<times> number"

definition sceneSetupEffect ::
  "(string \<Rightarrow> int option) \<Rightarrow> FileStructure option \<Rightarrow> bool \<Rightarrow> bool \<Rightarrow> number \<times> number
     \<Rightarrow> loadOp list" where
  "sceneSetupEffect getFloorNumber selectedData containerRef_current rendererInit c =
     (case selectedData of
        None \<Rightarrow> []
      | Some d \<Rightarrow>
          if \<not> containerRef_current then []
          else if strict_eq (fst c) (Fin 0) \<and> strict_eq (snd c) (Fin 0) then []
          else if \<not> rendererInit then []
          else
            map (\<lambda>f. let floorNumber = (case getFloorNumber f of None \<Rightarrow> 0 | Some n \<Rightarrow> n);
                         depth = (if endsWith f ''_Floor.geojson'' then 0.5 else 7)
                     in LoadAndAddToScene f c floorNumber depth)
                (geoFiles_paths d)
            @ (case networkFile_paths d of
                 None \<Rightarrow> []
               | Some n \<Rightarrow> [LoadNetworkFile n c])
            @ (if truthy (terrainFile_path d)
               then [LoadTerrainFile (interpolate (terrainFile_path d)) c] else []))"

text \<open>
  Modelled from the spec: \<open>loadAndAddToScene\<close>, \<open>loadNetworkFile\<close> and
  \<open>loadTerrainFile\<close> are not among the sources. By the spec each of them decrements
  the counter exactly once when its operation completes, success or handled failure, and
  the node and link files of the network count as one operation.
\<close>

definition settle :: "int \<Rightarrow> loadOp \<Rightarrow> int" where
  "settle remaining op = remaining - 1"

section \<open>The spec's formulas\<close>

text \<open>
  The arithmetic without rounding, as a reference: every result exact, every function of
  \<open>Math\<close> the real function. The instances below are computed in it.
\<close>

definition exactMachine :: machine where
  "exactMachine =
     \<lparr>rnd = Fin,
      log2F = (\<lambda>a. Fin (log 2 a)),
      logF = (\<lambda>a. Fin (ln a)),
      tanF = (\<lambda>a. Fin (tan a)),
      cosF = (\<lambda>a. Fin (cos a)),
      pow2F = (\<lambda>z. Fin (2 powr z))\<rparr>"

text \<open>
  What the theorems use of the arithmetic of doubles: rounding gives a number, keeps the
  order, and leaves 0 and 1 as they are; \<open>Math.log2\<close> of a positive finite number is
  finite.
\<close>

definition ieee :: "machine \<Rightarrow> bool" where
  "ieee fp =
     ((\<forall>a. rnd fp a \<noteq> NaN)
      \<and> (\<forall>a b. a \<le> b \<longrightarrow> rnd fp a \<le> rnd fp b)
      \<and> rnd fp 0 = Fin 0
      \<and> rnd fp 1 = Fin 1
      \<and> (\<forall>a. 0 < a \<longrightarrow> (\<exists>v. log2F fp a = Fin v)))"

text \<open>
  The zoom candidate of one axis in the words of the spec,
  \<open>log2 (360 / delta) - log2 (pixels / 256)\<close>, in the arithmetic of the machine.
\<close>

definition spec_zoomCandidate :: "machine \<Rightarrow> number \<Rightarrow> number \<Rightarrow> number" where
  "spec_zoomCandidate fp delta pixels =
     rounded fp (Math_log2 fp (rounded fp (Fin 360 / delta))
                 - Math_log2 fp (rounded fp (pixels / Fin 256)))"

text \<open>
  No operation of the candidate of one axis rounds: the two quotients are doubles, their
  logarithms are the real logarithms, and so is the difference of these. On an axis of
  zero extent the quotient \<open>360 / delta\<close> is infinite and only the pixel side counts.
\<close>

definition spec_exactCandidate :: "machine \<Rightarrow> real \<Rightarrow> real \<Rightarrow> bool" where
  "spec_exactCandidate fp delta pixels =
     (rnd fp (pixels / 256) = Fin (pixels / 256)
      \<and> log2F fp (pixels / 256) = Fin (log 2 (pixels / 256))
      \<and> (delta = 0
          \<or> rnd fp (360 / delta) = Fin (360 / delta)
            \<and> log2F fp (360 / delta) = Fin (log 2 (360 / delta))
            \<and> rnd fp (log 2 (360 / delta) - log 2 (pixels / 256))
                = Fin (log 2 (360 / delta) - log 2 (pixels / 256))))"

text \<open>
  The zoom level in the words of the spec on real numbers, without rounding: a candidate
  per axis, the minimum of the candidates, floored and clamped to 1..20. The candidate
  of an axis of zero extent is unbounded, so the other axis decides alone, and when both
  have zero extent the zoom is the maximum.
\<close>

definition spec_realCandidate :: "real \<Rightarrow> real \<Rightarrow> real" where
  "spec_realCandidate delta pixels = log 2 (360 / delta) - log 2 (pixels / 256)"

definition spec_clamp :: "int \<Rightarrow> int" where
  "spec_clamp z = max 1 (min 20 z)"

definition spec_zoom :: "real \<Rightarrow> real \<Rightarrow> real \<Rightarrow> real \<Rightarrow> int" where
  "spec_zoom dlat dlon w h =
     (if dlat = 0 \<and> dlon = 0 then 20
      else if dlat = 0 then spec_clamp \<lfloor>spec_realCandidate dlon w\<rfloor>
      else if dlon = 0 then spec_clamp \<lfloor>spec_realCandidate dlat h\<rfloor>
      else spec_clamp \<lfloor>min (spec_realCandidate dlat h) (spec_realCandidate dlon w)\<rfloor>)"

text \<open>
  The slippy-map tile of a point in the words of the spec, on real numbers, without
  rounding: the column from the longitude, the row by the Mercator formula of the
  latitude.
\<close>

definition spec_tileX :: "real \<Rightarrow> real \<Rightarrow> int" where
  "spec_tileX longitude z = \<lfloor>(longitude + 180) / 360 * 2 powr z\<rfloor>"

definition spec_tileY :: "real \<Rightarrow> real \<Rightarrow> int" where
  "spec_tileY latitude z =
     \<lfloor>(1 - ln (tan (latitude * pi / 180) + 1 / cos (latitude * pi / 180)) / pi) / 2 * 2 powr z\<rfloor>"

text \<open>
  No operation of the column rounds: the sum, the quotient and the product are doubles
  and the power is the real power.
\<close>

definition spec_exactColumn :: "machine \<Rightarrow> real \<Rightarrow> real \<Rightarrow> bool" where
  "spec_exactColumn fp longitude z =
     (rnd fp (longitude + 180) = Fin (longitude + 180)
      \<and> rnd fp ((longitude + 180) / 360) = Fin ((longitude + 180) / 360)
      \<and> pow2F fp z = Fin (2 powr z)
      \<and> rnd fp ((longitude + 180) / 360 * 2 powr z) = Fin ((longitude + 180) / 360 * 2 powr z))"

text \<open>
  No operation of the row rounds, \<open>Math.PI\<close> is \<open>pi\<close> and the functions of \<open>Math\<close>
  give the real values. Since \<open>pi\<close> is no double, this describes an arithmetic
  without rounding, not the doubles.
\<close>

definition spec_exactRow :: "machine \<Rightarrow> real \<Rightarrow> real \<Rightarrow> bool" where
  "spec_exactRow fp latitude z =
     (let phi = latitude * pi / 180;
          m = tan phi + 1 / cos phi;
          t = 1 - ln m / pi
      in rnd fp pi = Fin pi
         \<and> rnd fp (latitude * pi) = Fin (latitude * pi)
         \<and> rnd fp phi = Fin phi
         \<and> tanF fp phi = Fin (tan phi)
         \<and> cosF fp phi = Fin (cos phi)
         \<and> rnd fp (1 / cos phi) = Fin (1 / cos phi)
         \<and> rnd fp m = Fin m
         \<and> logF fp m = Fin (ln m)
         \<and> rnd fp (ln m / pi) = Fin (ln m / pi)
         \<and> rnd fp t = Fin t
         \<and> rnd fp (t / 2) = Fin (t / 2)
         \<and> pow2F fp z = Fin (2 powr z)
         \<and> rnd fp (t / 2 * 2 powr z) = Fin (t / 2 * 2 powr z))"

text \<open>
  What the row of a point of the equator uses of the arithmetic of doubles: \<open>Math.PI\<close>
  is a positive finite number, 0, 1 and a half are doubles, \<open>tan 0 = 0\<close>, \<open>cos 0 = 1\<close>
  and \<open>log 1 = 0\<close>, and the power of two and its half are not rounded.
\<close>

definition spec_equatorRow :: "machine \<Rightarrow> real \<Rightarrow> bool" where
  "spec_equatorRow fp z =
     ((\<exists>p. 0 < p \<and> rnd fp pi = Fin p)
      \<and> rnd fp 0 = Fin 0 \<and> rnd fp 1 = Fin 1 \<and> rnd fp (1 / 2) = Fin (1 / 2)
      \<and> tanF fp 0 = Fin 0 \<and> cosF fp 0 = Fin 1 \<and> logF fp 1 = Fin 0
      \<and> pow2F fp z = Fin (2 powr z)
      \<and> rnd fp (2 powr z / 2) = Fin (2 powr z / 2))"

text \<open>
  The vocabulary of the claim on the planar bounds: the points the scan visits (the
  first ring of every feature), every coordinate pair of the collection (all rings), a
  point moved by the scene origin, a pair inside bounds, and bounds that are at least as
  wide as others.
\<close>

definition scannedPoints :: "feature list \<Rightarrow> point list" where
  "scannedPoints fs =
     concat (map (\<lambda>f. case geometry f of
                          None \<Rightarrow> []
                        | Some g \<Rightarrow> (case coordinates g of [] \<Rightarrow> [] | ring # _ \<Rightarrow> ring)) fs)"

definition allPoints :: "feature list \<Rightarrow> point list" where
  "allPoints fs =
     concat (map (\<lambda>f. case geometry f of
                          None \<Rightarrow> []
                        | Some g \<Rightarrow> concat (coordinates g)) fs)"

definition recenter :: "number \<times> number \<Rightarrow> point \<Rightarrow> number \<times> number" where
  "recenter c p = (index p 0 - fst c, index p 1 - snd c)"

definition numeric :: "number \<times> number \<Rightarrow> bool" where
  "numeric q = (fst q \<noteq> NaN \<and> snd q \<noteq> NaN)"

definition numericBounds :: "planar \<Rightarrow> bool" where
  "numericBounds b = (minX b \<noteq> NaN \<and> maxX b \<noteq> NaN \<and> minY b \<noteq> NaN \<and> maxY b \<noteq> NaN)"

definition inside :: "planar \<Rightarrow> number \<times> number \<Rightarrow> bool" where
  "inside b q = (minX b \<le> fst q \<and> fst q \<le> maxX b \<and> minY b \<le> snd q \<and> snd q \<le> maxY b)"

definition widens :: "planar \<Rightarrow> planar \<Rightarrow> bool" where
  "widens old new =
     (minX new \<le> minX old \<and> maxX old \<le> maxX new \<and> minY new \<le> minY old \<and> maxY old \<le> maxY new)"

text \<open>
  The vocabulary of the claims on the imagery plane: the children of the group named
  terrain (none when there is no such group), the number of visibility controls, and a
  sequence of settled texture jobs.
\<close>

definition terrainChildren :: "world \<Rightarrow> mesh list" where
  "terrainChildren w = (case getObjectByName (scene w) ''terrain'' of None \<Rightarrow> [] | Some ms \<Rightarrow> ms)"

definition toggles :: "world \<Rightarrow> nat" where
  "toggles w = count_list (gui w) ''aerialImagery''"

fun placeAll :: "(bool \<times> outcome \<times> job) list \<Rightarrow> world \<Rightarrow> world" where
  "placeAll [] w = w"
| "placeAll ((has2d, oc, j) # evs) w =
     placeAll evs (createRealAerialImageryTexture_resume has2d oc j w)"

text \<open>
  Instances for the theorems below: an environment without keys, a conversion of numbers
  to text that writes nothing (for instances where the text plays no part), a terrain
  file with one square, and a fresh scene with one file to load.
\<close>

definition noKeys :: env where
  "noKeys = \<lparr>NEXT_PUBLIC_GOOGLE_MAPS_API_KEY = None, GOOGLE_MAPS_API_KEY = None\<rparr>"

definition blankText :: "number \<Rightarrow> string" where
  "blankText n = []"

definition squareTerrain :: "feature list" where
  "squareTerrain =
     [\<lparr>geometry = Some \<lparr>coordinates =
        [[[Fin 0, Fin 0], [Fin 10, Fin 0], [Fin 10, Fin 10], [Fin 0, Fin 10], [Fin 0, Fin 0]]]\<rparr>\<rparr>]"

definition squareBounds :: planar where
  "squareBounds = \<lparr>minX = Fin 0, maxX = Fin 10, minY = Fin 0, maxY = Fin 10\<rparr>"

definition freshWorld :: world where
  "freshWorld = \<lparr>scene = [], gui = [], loadFileRemaining = 1, pending = []\<rparr>"

text \<open>
  The expected number of load operations in the words of the spec: the geometry files,
  plus one if the venue has a network pair, plus one if it has a terrain file.
\<close>

definition spec_expectedOperations :: "FileStructure \<Rightarrow> int" where
  "spec_expectedOperations d =
     int (length (geoFiles d))
     + (if networkFile d \<noteq> None then 1 else 0)
     + (if truthy (terrainFile d) then 1 else 0)"

text \<open>A floor classifier for instances: it finds no floor tag, so every file is on floor 0.\<close>

definition noFloorTag :: "string \<Rightarrow> int option" where
  "noFloorTag f = None"

section \<open>Arithmetic of JavaScript numbers\<close>

lemma minus_Fin [simp]: "Fin a - Fin b = Fin (a - b)"
  by (simp add: minus_number_def)

lemma minus_Infinity_Fin [simp]:
  "Infinity - Fin b = Infinity" "NegInfinity - Fin b = NegInfinity"
  by (simp_all add: minus_number_def)

lemma minus_NaN [simp]: "NaN - a = NaN" "a - NaN = NaN"
  by (cases a; simp add: minus_number_def)+

lemma Math_min_not_NaN: "a \<noteq> NaN \<Longrightarrow> b \<noteq> NaN \<Longrightarrow> Math_min a b \<noteq> NaN"
  by (cases a; cases b) simp_all

lemma Math_max_not_NaN: "a \<noteq> NaN \<Longrightarrow> b \<noteq> NaN \<Longrightarrow> Math_max a b \<noteq> NaN"
  by (cases a; cases b) simp_all

lemma less_eq_number_trans: "(a::number) \<le> b \<Longrightarrow> b \<le> c \<Longrightarrow> a \<le> c"
  by (cases a; cases b; cases c) simp_all

lemma less_eq_number_refl: "a \<noteq> NaN \<Longrightarrow> (a::number) \<le> a"
  by (cases a) simp_all

lemma Math_min_le: "a \<noteq> NaN \<Longrightarrow> b \<noteq> NaN \<Longrightarrow> Math_min a b \<le> a \<and> Math_min a b \<le> b"
  by (cases a; cases b) simp_all

lemma Math_max_ge: "a \<noteq> NaN \<Longrightarrow> b \<noteq> NaN \<Longrightarrow> a \<le> Math_max a b \<and> b \<le> Math_max a b"
  by (cases a; cases b) simp_all

lemma ieee_exactMachine: "ieee exactMachine"
  by (simp add: ieee_def exactMachine_def)

lemma rnd_exactMachine [simp]: "rnd exactMachine a = Fin a"
  by (simp add: exactMachine_def)

lemma rounded_exactMachine [simp]: "rounded exactMachine a = a"
  by (cases a) simp_all

lemma rounded_NaN: "ieee fp \<Longrightarrow> (rounded fp a = NaN) = (a = NaN)"
  by (cases a) (simp_all add: ieee_def)

lemma rounded_mono: "ieee fp \<Longrightarrow> a \<le> b \<Longrightarrow> rounded fp a \<le> rounded fp b"
proof (cases a; cases b)
  fix x y assume "ieee fp" "a \<le> b" "a = Fin x" "b = Fin y"
  then show ?thesis by (simp add: ieee_def)
next
  fix x assume "ieee fp" "a = Fin x" "b = Infinity"
  then show ?thesis by (cases "rnd fp x") (simp_all add: ieee_def)
next
  fix y assume "ieee fp" "a = NegInfinity" "b = Fin y"
  then show ?thesis by (cases "rnd fp y") (simp_all add: ieee_def)
qed simp_all

lemma rnd_nonneg:
  assumes "ieee fp" and "0 \<le> a"
  shows "rnd fp a = Infinity \<or> (\<exists>b. 0 \<le> b \<and> rnd fp a = Fin b)"
proof -
  have mono: "\<forall>x y. x \<le> y \<longrightarrow> rnd fp x \<le> rnd fp y" and zero: "rnd fp 0 = Fin 0"
    using assms(1) by (simp_all add: ieee_def)
  have "rnd fp 0 \<le> rnd fp a" using mono assms(2) by blast
  then have "Fin 0 \<le> rnd fp a" by (simp only: zero)
  then show ?thesis by (cases "rnd fp a") simp_all
qed

section \<open>coordinateTransform.ts: the claims\<close>

lemma divide_const_mono: "a \<le> b \<Longrightarrow> 0 < k \<Longrightarrow> a / Fin k \<le> b / Fin k"
  by (cases a; cases b) (simp_all add: divide_right_mono)

lemma divide_const_NaN: "k \<noteq> 0 \<Longrightarrow> (a / Fin k = NaN) = (a = NaN)"
  by (cases a) simp_all

lemma add_left_mono_number:
  "a \<le> b \<Longrightarrow> c + a \<noteq> NaN \<Longrightarrow> c + b \<noteq> NaN \<Longrightarrow> (c::number) + a \<le> c + b"
  by (cases a; cases b; cases c) simp_all

lemma add_Fin_NaN: "(Fin c + a = NaN) = (a = NaN)"
  by (cases a) simp_all

lemma shift_mono:
  assumes "ieee fp" and "a \<le> b" and "0 < k"
    and "rounded fp (c + rounded fp (a / Fin k)) \<noteq> NaN"
    and "rounded fp (c + rounded fp (b / Fin k)) \<noteq> NaN"
  shows "rounded fp (c + rounded fp (a / Fin k)) \<le> rounded fp (c + rounded fp (b / Fin k))"
proof -
  have "rounded fp (a / Fin k) \<le> rounded fp (b / Fin k)"
    using assms(1-3) by (simp add: rounded_mono divide_const_mono)
  moreover have "c + rounded fp (a / Fin k) \<noteq> NaN" "c + rounded fp (b / Fin k) \<noteq> NaN"
    using assms(1,4,5) by (simp_all add: rounded_NaN)
  ultimately have "c + rounded fp (a / Fin k) \<le> c + rounded fp (b / Fin k)"
    by (rule add_left_mono_number)
  then show ?thesis using assms(1) by (rule rounded_mono [rotated])
qed

lemma shift_finite:
  assumes "ieee fp" and "a \<le> b" and "0 < k"
  shows "rounded fp (Fin c + rounded fp (a / Fin k)) \<noteq> NaN"
    and "rounded fp (Fin c + rounded fp (b / Fin k)) \<noteq> NaN"
proof -
  have "a \<noteq> NaN" "b \<noteq> NaN" using assms(2) by (cases a; cases b; simp)+
  then show "rounded fp (Fin c + rounded fp (a / Fin k)) \<noteq> NaN"
    and "rounded fp (Fin c + rounded fp (b / Fin k)) \<noteq> NaN"
    using assms(1,3) by (simp_all add: rounded_NaN add_Fin_NaN divide_const_NaN)
qed

lemma transform_ordered:
  assumes "ieee fp" and "x \<le> x'" and "y \<le> y'"
  shows "lat (transformToLatLon fp x y (Fin a) (Fin b))
           \<le> lat (transformToLatLon fp x' y' (Fin a) (Fin b))"
    and "lon (transformToLatLon fp x y (Fin a) (Fin b))
           \<le> lon (transformToLatLon fp x' y' (Fin a) (Fin b))"
proof -
  have k: "(0::real) < 111320" "(0::real) < 91290" by simp_all
  show "lat (transformToLatLon fp x y (Fin a) (Fin b))
           \<le> lat (transformToLatLon fp x' y' (Fin a) (Fin b))"
    using shift_mono [OF assms(1,3) k(1)] shift_finite [OF assms(1,3) k(1)]
    by (simp add: transformToLatLon_def)
  show "lon (transformToLatLon fp x y (Fin a) (Fin b))
           \<le> lon (transformToLatLon fp x' y' (Fin a) (Fin b))"
    using shift_mono [OF assms(1,2) k(2)] shift_finite [OF assms(1,2) k(2)]
    by (simp add: transformToLatLon_def)
qed

text \<open>
  C3. For every input, the latitude \<open>transformToLatLon\<close> returns is the anchor
  \<open>centerLat\<close> plus \<open>y / 111320\<close> and the longitude is \<open>centerLon\<close> plus
  \<open>x / 91290\<close>, each operation in the arithmetic of doubles. The function always
  returns a value, and equal inputs give equal outputs. In the arithmetic of doubles,
  the anchor itself comes back at offset zero, the offset (91290, 111320) from the anchor
  (0, 0) gives exactly one degree of longitude and of latitude, and a larger offset from
  a finite anchor never gives a smaller coordinate. On finite inputs for which the two
  quotients and the two sums are doubles themselves, so that no operation rounds, the
  result is the value of the real linear map with these two factors.
\<close>

theorem transformToLatLon_total:
  "transformToLatLon fp x y centerLat centerLon
     = \<lparr>lat = rounded fp (centerLat + rounded fp (y / Fin 111320)),
        lon = rounded fp (centerLon + rounded fp (x / Fin 91290))\<rparr>
   \<and> (\<exists>r. transformToLatLon fp x y centerLat centerLon = r)
   \<and> (x = x' \<and> y = y' \<and> centerLat = centerLat' \<and> centerLon = centerLon' \<longrightarrow>
        transformToLatLon fp x y centerLat centerLon
          = transformToLatLon fp x' y' centerLat' centerLon')
   \<and> (ieee fp \<and> rnd fp a = Fin a \<and> rnd fp b = Fin b \<longrightarrow>
        transformToLatLon fp (Fin 0) (Fin 0) (Fin a) (Fin b) = \<lparr>lat = Fin a, lon = Fin b\<rparr>)
   \<and> (ieee fp \<longrightarrow>
        transformToLatLon fp (Fin 91290) (Fin 111320) (Fin 0) (Fin 0)
          = \<lparr>lat = Fin 1, lon = Fin 1\<rparr>)
   \<and> (ieee fp \<and> x \<le> x' \<and> y \<le> y' \<longrightarrow>
        lat (transformToLatLon fp x y (Fin a) (Fin b))
          \<le> lat (transformToLatLon fp x' y' (Fin a) (Fin b))
        \<and> lon (transformToLatLon fp x y (Fin a) (Fin b))
          \<le> lon (transformToLatLon fp x' y' (Fin a) (Fin b)))
   \<and> (rnd fp (q / 111320) = Fin (q / 111320) \<and> rnd fp (p / 91290) = Fin (p / 91290)
        \<and> rnd fp (c + q / 111320) = Fin (c + q / 111320)
        \<and> rnd fp (d + p / 91290) = Fin (d + p / 91290) \<longrightarrow>
        transformToLatLon fp (Fin p) (Fin q) (Fin c) (Fin d)
          = \<lparr>lat = Fin (c + q / 111320), lon = Fin (d + p / 91290)\<rparr>)"
proof -
  have anchor: "transformToLatLon fp (Fin 0) (Fin 0) (Fin a) (Fin b) = \<lparr>lat = Fin a, lon = Fin b\<rparr>"
    if "ieee fp \<and> rnd fp a = Fin a \<and> rnd fp b = Fin b"
    using that by (simp add: transformToLatLon_def ieee_def)
  have degree: "transformToLatLon fp (Fin 91290) (Fin 111320) (Fin 0) (Fin 0)
      = \<lparr>lat = Fin 1, lon = Fin 1\<rparr>" if "ieee fp"
    using that by (simp add: transformToLatLon_def ieee_def)
  have exact: "transformToLatLon fp (Fin p) (Fin q) (Fin c) (Fin d)
       = \<lparr>lat = Fin (c + q / 111320), lon = Fin (d + p / 91290)\<rparr>"
    if "rnd fp (q / 111320) = Fin (q / 111320) \<and> rnd fp (p / 91290) = Fin (p / 91290)
        \<and> rnd fp (c + q / 111320) = Fin (c + q / 111320)
        \<and> rnd fp (d + p / 91290) = Fin (d + p / 91290)"
    using that by (simp add: transformToLatLon_def)
  show ?thesis
    using anchor degree exact transform_ordered [of fp x x' y y' a b]
    by (simp add: transformToLatLon_def)
qed

theorem transformToLatLon_total_witness:
  "ieee exactMachine \<and> rnd exactMachine 35 = Fin 35 \<and> rnd exactMachine 139 = Fin 139
   \<and> transformToLatLon exactMachine (Fin 0) (Fin 0) (Fin 35) (Fin 139)
       = \<lparr>lat = Fin 35, lon = Fin 139\<rparr>
   \<and> transformToLatLon exactMachine (Fin 91290) (Fin 111320) (Fin 0) (Fin 0)
       = \<lparr>lat = Fin 1, lon = Fin 1\<rparr>
   \<and> Fin 0 \<le> Fin 100 \<and> Fin (-50) \<le> Fin 200
   \<and> lat (transformToLatLon exactMachine (Fin 0) (Fin (-50)) (Fin 35) (Fin 139))
       \<le> lat (transformToLatLon exactMachine (Fin 100) (Fin 200) (Fin 35) (Fin 139))
   \<and> transformToLatLon exactMachine (Fin 100) (Fin 200) (Fin 35) (Fin 139)
       = transformToLatLon exactMachine (Fin 100) (Fin 200) (Fin 35) (Fin 139)
   \<and> rnd exactMachine (222640 / 111320) = Fin (222640 / 111320)
   \<and> rnd exactMachine (35 + 222640 / 111320) = Fin (35 + 222640 / 111320)
   \<and> transformToLatLon exactMachine (Fin (- 91290)) (Fin 222640) (Fin 35) (Fin 139)
       = \<lparr>lat = Fin 37, lon = Fin 138\<rparr>"
proof -
  have r: "rnd exactMachine 35 = Fin 35" "rnd exactMachine 139 = Fin 139"
    "rnd exactMachine (222640 / 111320) = Fin (222640 / 111320)"
    "rnd exactMachine (35 + 222640 / 111320) = Fin (35 + 222640 / 111320)"
    by simp_all
  have o: "Fin 0 \<le> Fin 100" "Fin (-50) \<le> Fin 200" by simp_all
  show ?thesis
    using ieee_exactMachine r o
      transformToLatLon_total [of exactMachine "Fin 0" "Fin (-50)" "Fin 35" "Fin 139"
        "Fin 100" "Fin 200" "Fin 35" "Fin 139" 35 139 222640 "- 91290" 35 139]
      transformToLatLon_total [of exactMachine "Fin 100" "Fin 200" "Fin 35" "Fin 139"
        "Fin 100" "Fin 200" "Fin 35" "Fin 139" 35 139 222640 "- 91290" 35 139]
    by simp
qed

text \<open>
  C2, as amended. \<open>calculateLatLonBounds\<close> returns the transform of the corner
  \<open>(minX, minY)\<close> as southwest, the transform of \<open>(maxX, maxY)\<close> as northeast and their
  midpoint, computed as the sum halved, as center, for every input. In the arithmetic of
  doubles, when \<open>minX \<le> maxX\<close> and \<open>minY \<le> maxY\<close>, southwest is below northeast in
  each coordinate in which both are numbers; and with a finite anchor \<open>centerLat\<close>,
  \<open>centerLon\<close> they are numbers and southwest is below northeast in both.
\<close>

theorem calculateLatLonBounds_corners:
  "southwest (calculateLatLonBounds fp x0 x1 y0 y1 centerLat centerLon)
     = transformToLatLon fp x0 y0 centerLat centerLon
   \<and> northeast (calculateLatLonBounds fp x0 x1 y0 y1 centerLat centerLon)
     = transformToLatLon fp x1 y1 centerLat centerLon
   \<and> bounds.center (calculateLatLonBounds fp x0 x1 y0 y1 centerLat centerLon)
     = \<lparr>lat = rounded fp (rounded fp
                (lat (transformToLatLon fp x0 y0 centerLat centerLon)
                 + lat (transformToLatLon fp x1 y1 centerLat centerLon)) / Fin 2),
        lon = rounded fp (rounded fp
                (lon (transformToLatLon fp x0 y0 centerLat centerLon)
                 + lon (transformToLatLon fp x1 y1 centerLat centerLon)) / Fin 2)\<rparr>
   \<and> (ieee fp \<and> x0 \<le> x1 \<and> y0 \<le> y1 \<longrightarrow>
        (lat (southwest (calculateLatLonBounds fp x0 x1 y0 y1 centerLat centerLon)) \<noteq> NaN
          \<and> lat (northeast (calculateLatLonBounds fp x0 x1 y0 y1 centerLat centerLon)) \<noteq> NaN \<longrightarrow>
            lat (southwest (calculateLatLonBounds fp x0 x1 y0 y1 centerLat centerLon))
              \<le> lat (northeast (calculateLatLonBounds fp x0 x1 y0 y1 centerLat centerLon)))
        \<and> (lon (southwest (calculateLatLonBounds fp x0 x1 y0 y1 centerLat centerLon)) \<noteq> NaN
          \<and> lon (northeast (calculateLatLonBounds fp x0 x1 y0 y1 centerLat centerLon)) \<noteq> NaN \<longrightarrow>
            lon (southwest (calculateLatLonBounds fp x0 x1 y0 y1 centerLat centerLon))
              \<le> lon (northeast (calculateLatLonBounds fp x0 x1 y0 y1 centerLat centerLon)))
        \<and> lat (southwest (calculateLatLonBounds fp x0 x1 y0 y1 (Fin cLat) (Fin cLon)))
           \<le> lat (northeast (calculateLatLonBounds fp x0 x1 y0 y1 (Fin cLat) (Fin cLon)))
        \<and> lon (southwest (calculateLatLonBounds fp x0 x1 y0 y1 (Fin cLat) (Fin cLon)))
           \<le> lon (northeast (calculateLatLonBounds fp x0 x1 y0 y1 (Fin cLat) (Fin cLon))))"
proof -
  have k: "(0::real) < 111320" "(0::real) < 91290" by simp_all
  have ordered: "(lat (transformToLatLon fp x0 y0 centerLat centerLon) \<noteq> NaN
          \<and> lat (transformToLatLon fp x1 y1 centerLat centerLon) \<noteq> NaN \<longrightarrow>
            lat (transformToLatLon fp x0 y0 centerLat centerLon)
              \<le> lat (transformToLatLon fp x1 y1 centerLat centerLon))
        \<and> (lon (transformToLatLon fp x0 y0 centerLat centerLon) \<noteq> NaN
          \<and> lon (transformToLatLon fp x1 y1 centerLat centerLon) \<noteq> NaN \<longrightarrow>
            lon (transformToLatLon fp x0 y0 centerLat centerLon)
              \<le> lon (transformToLatLon fp x1 y1 centerLat centerLon))
        \<and> lat (transformToLatLon fp x0 y0 (Fin cLat) (Fin cLon))
           \<le> lat (transformToLatLon fp x1 y1 (Fin cLat) (Fin cLon))
        \<and> lon (transformToLatLon fp x0 y0 (Fin cLat) (Fin cLon))
           \<le> lon (transformToLatLon fp x1 y1 (Fin cLat) (Fin cLon))"
    if h: "ieee fp \<and> x0 \<le> x1 \<and> y0 \<le> y1"
  proof -
    from h have i: "ieee fp" and x: "x0 \<le> x1" and y: "y0 \<le> y1" by simp_all
    show ?thesis
      using shift_mono [OF i y k(1), of centerLat] shift_mono [OF i x k(2), of centerLon]
        transform_ordered [OF i x y, of cLat cLon]
      by (simp add: transformToLatLon_def)
  qed
  show ?thesis
    using ordered by (simp add: calculateLatLonBounds_def Let_def)
qed

theorem calculateLatLonBounds_corners_witness:
  "ieee exactMachine \<and> Fin (-91290) \<le> Fin 91290 \<and> Fin (-111320) \<le> Fin 111320
   \<and> southwest (calculateLatLonBounds exactMachine (Fin (-91290)) (Fin 91290) (Fin (-111320))
        (Fin 111320) (Fin 35) (Fin 139)) = \<lparr>lat = Fin 34, lon = Fin 138\<rparr>
   \<and> northeast (calculateLatLonBounds exactMachine (Fin (-91290)) (Fin 91290) (Fin (-111320))
        (Fin 111320) (Fin 35) (Fin 139)) = \<lparr>lat = Fin 36, lon = Fin 140\<rparr>
   \<and> bounds.center (calculateLatLonBounds exactMachine (Fin (-91290)) (Fin 91290) (Fin (-111320))
        (Fin 111320) (Fin 35) (Fin 139)) = \<lparr>lat = Fin 35, lon = Fin 139\<rparr>
   \<and> lat (southwest (calculateLatLonBounds exactMachine (Fin (-91290)) (Fin 91290)
        (Fin (-111320)) (Fin 111320) (Fin 35) (Fin 139)))
      \<le> lat (northeast (calculateLatLonBounds exactMachine (Fin (-91290)) (Fin 91290)
        (Fin (-111320)) (Fin 111320) (Fin 35) (Fin 139)))"
proof -
  have x: "Fin (-91290) \<le> Fin 91290" and y: "Fin (-111320) \<le> Fin 111320" by simp_all
  show ?thesis
    using ieee_exactMachine x y
      calculateLatLonBounds_corners [of exactMachine "Fin (-91290)" "Fin 91290" "Fin (-111320)"
        "Fin 111320" "Fin 35" "Fin 139" 35 139]
    by (simp add: transformToLatLon_def)
qed

text \<open>
  The claim as stated, for every \<open>centerLat\<close>, fails where the anchor is not a number:
  both latitudes are \<open>NaN\<close>, whatever the rounding, and \<open>NaN \<le> NaN\<close> is false.
\<close>

theorem calculateLatLonBounds_NaN_counterexample:
  "Fin 0 \<le> Fin 1
   \<and> \<not> lat (southwest (calculateLatLonBounds exactMachine (Fin 0) (Fin 1) (Fin 0) (Fin 1)
            NaN (Fin 139)))
        \<le> lat (northeast (calculateLatLonBounds exactMachine (Fin 0) (Fin 1) (Fin 0) (Fin 1)
            NaN (Fin 139)))"
  by (simp add: calculateLatLonBounds_def transformToLatLon_def)

lemma clamp_floor_range:
  "z \<noteq> NaN \<Longrightarrow>
     \<exists>k. Math_max (Fin 1) (Math_min (Fin 20) (Math_floor z)) = Fin (of_int k) \<and> 1 \<le> k \<and> k \<le> 20"
proof (cases z)
  case (Fin a)
  have "Math_max (Fin 1) (Math_min (Fin 20) (Math_floor z)) = Fin (of_int (max 1 (min 20 \<lfloor>a\<rfloor>)))"
    using Fin by (simp add: max_def min_def)
  then show ?thesis by (intro exI[of _ "max 1 (min 20 \<lfloor>a\<rfloor>)"]) simp
next
  case Infinity
  then show ?thesis by (intro exI[of _ 20]) simp
next
  case NegInfinity
  then show ?thesis by (intro exI[of _ 1]) simp
qed simp

lemma log2_finite:
  assumes "ieee fp" and "0 < a"
  shows "\<exists>v. Math_log2 fp (Fin a) = Fin v"
proof -
  have "\<forall>x. 0 < x \<longrightarrow> (\<exists>v. log2F fp x = Fin v)" using assms(1) by (simp add: ieee_def)
  then show ?thesis using assms(2) by simp
qed

lemma log2_rnd_nonneg:
  assumes "ieee fp" and "0 \<le> a"
  shows "Math_log2 fp (rnd fp a) \<noteq> NaN"
proof -
  from rnd_nonneg [OF assms] consider "rnd fp a = Infinity"
    | b where "0 \<le> b" "rnd fp a = Fin b" by blast
  then show ?thesis
  proof cases
    case 1
    then show ?thesis by simp
  next
    case 2
    show ?thesis
    proof (cases "b = 0")
      case True
      with 2 show ?thesis by simp
    next
      case False
      with 2 have "0 < b" by simp
      from log2_finite [OF assms(1) this] 2 show ?thesis by auto
    qed
  qed
qed

lemma log2_quotient_not_NaN:
  assumes "ieee fp" and "d \<noteq> NaN"
  shows "Math_log2 fp (rounded fp (Fin 360 / Math_abs d)) \<noteq> NaN"
proof (cases d)
  case (Fin x)
  show ?thesis
  proof (cases "x = 0")
    case True
    with Fin show ?thesis by simp
  next
    case False
    then have "0 \<le> 360 / \<bar>x\<bar>" by simp
    from log2_rnd_nonneg [OF assms(1) this] Fin False show ?thesis by simp
  qed
next
  case Infinity
  then show ?thesis using log2_rnd_nonneg [OF assms(1), of 0] by simp
next
  case NegInfinity
  then show ?thesis using log2_rnd_nonneg [OF assms(1), of 0] by simp
next
  case NaN
  with assms(2) show ?thesis by simp
qed

lemma minus_Fin_not_NaN: "a \<noteq> NaN \<Longrightarrow> a - Fin v \<noteq> NaN"
  by (cases a) simp_all

lemma candidate_not_NaN:
  assumes "ieee fp" and "d \<noteq> NaN" and "rounded fp (Fin p / Fin 256) = Fin q" and "0 < q"
  shows "spec_zoomCandidate fp (Math_abs d) (Fin p) \<noteq> NaN"
proof -
  obtain v where "Math_log2 fp (Fin q) = Fin v"
    using log2_finite [OF assms(1,4)] by blast
  then show ?thesis
    using log2_quotient_not_NaN [OF assms(1,2)] assms(1,3)
    by (simp add: spec_zoomCandidate_def rounded_NaN minus_Fin_not_NaN)
qed

lemma candidate_zero_extent:
  assumes "ieee fp" and "0 < p" and "rounded fp (Fin p / Fin 256) \<noteq> Infinity"
  shows "spec_zoomCandidate fp (Fin 0) (Fin p) = Infinity"
proof -
  have "0 \<le> p / 256" using assms(2) by simp
  from rnd_nonneg [OF assms(1) this] assms(3)
  obtain b where b: "0 \<le> b" "rnd fp (p / 256) = Fin b" by auto
  have "Math_log2 fp (Fin b) = NegInfinity \<or> (\<exists>v. Math_log2 fp (Fin b) = Fin v)"
  proof (cases "b = 0")
    case True
    then show ?thesis by simp
  next
    case False
    with b have "0 < b" by simp
    from log2_finite [OF assms(1) this] show ?thesis by blast
  qed
  then show ?thesis
    using b by (auto simp: spec_zoomCandidate_def minus_number_def)
qed

lemma calculateZoomLevel_candidates:
  fixes b :: "'a corners_scheme"
  shows "calculateZoomLevel fp b width height
     = Math_max (Fin 1) (Math_min (Fin 20) (Math_floor (Math_min
         (spec_zoomCandidate fp
            (Math_abs (rounded fp (lat (northeast b) - lat (southwest b)))) height)
         (spec_zoomCandidate fp
            (Math_abs (rounded fp (lon (northeast b) - lon (southwest b)))) width))))"
  by (simp add: calculateZoomLevel_def spec_zoomCandidate_def Let_def)

lemma calculateZoomLevel_range:
  fixes b :: "'a corners_scheme"
  assumes "ieee fp"
    and "rounded fp (Fin w / Fin 256) = Fin pw" "0 < pw"
    and "rounded fp (Fin h / Fin 256) = Fin ph" "0 < ph"
    and "lat (northeast b) - lat (southwest b) \<noteq> NaN"
    and "lon (northeast b) - lon (southwest b) \<noteq> NaN"
  shows "\<exists>k. calculateZoomLevel fp b (Fin w) (Fin h) = Fin (of_int k) \<and> 1 \<le> k \<and> k \<le> 20"
proof -
  have r: "rounded fp (lat (northeast b) - lat (southwest b)) \<noteq> NaN"
    "rounded fp (lon (northeast b) - lon (southwest b)) \<noteq> NaN"
    using assms(1,6,7) by (simp_all add: rounded_NaN)
  have "spec_zoomCandidate fp
      (Math_abs (rounded fp (lat (northeast b) - lat (southwest b)))) (Fin h) \<noteq> NaN"
    using assms(1) r(1) assms(4,5) by (rule candidate_not_NaN)
  moreover have "spec_zoomCandidate fp
      (Math_abs (rounded fp (lon (northeast b) - lon (southwest b)))) (Fin w) \<noteq> NaN"
    using assms(1) r(2) assms(2,3) by (rule candidate_not_NaN)
  ultimately show ?thesis
    unfolding calculateZoomLevel_candidates
    by (intro clamp_floor_range Math_min_not_NaN)
qed

lemma calculateZoomLevel_zero_extent:
  assumes "ieee fp" and "0 < w" and "0 < h"
    and "rounded fp (Fin w / Fin 256) \<noteq> Infinity"
    and "rounded fp (Fin h / Fin 256) \<noteq> Infinity"
  shows "calculateZoomLevel fp \<lparr>southwest = \<lparr>lat = Fin latS, lon = Fin lonS\<rparr>,
            northeast = \<lparr>lat = Fin latS, lon = Fin lonS\<rparr>\<rparr> (Fin w) (Fin h) = Fin 20"
proof -
  have "rnd fp 0 = Fin 0" using assms(1) by (simp add: ieee_def)
  then show ?thesis
    unfolding calculateZoomLevel_candidates
    using candidate_zero_extent [OF assms(1,2,4)] candidate_zero_extent [OF assms(1,3,5)]
    by simp
qed

lemma candidate_exact:
  assumes "spec_exactCandidate fp delta pixels" and "0 \<le> delta" and "0 < pixels"
  shows "spec_zoomCandidate fp (Fin delta) (Fin pixels)
         = (if delta = 0 then Infinity else Fin (spec_realCandidate delta pixels))"
proof (cases "delta = 0")
  case True
  have "0 < pixels / 256" using assms(3) by simp
  then show ?thesis
    using assms(1) True
    by (simp add: spec_zoomCandidate_def spec_exactCandidate_def minus_number_def)
next
  case False
  then have "0 < 360 / delta" using assms(2) by simp
  moreover have "0 < pixels / 256" using assms(3) by simp
  ultimately show ?thesis
    using assms(1) False
    by (simp add: spec_zoomCandidate_def spec_exactCandidate_def spec_realCandidate_def
        minus_number_def)
qed

lemma calculateZoomLevel_exact:
  assumes "0 < w" "0 < h"
    and "rnd fp (latN - latS) = Fin (latN - latS)"
    and "rnd fp (lonN - lonS) = Fin (lonN - lonS)"
    and "spec_exactCandidate fp \<bar>latN - latS\<bar> h"
    and "spec_exactCandidate fp \<bar>lonN - lonS\<bar> w"
  shows "calculateZoomLevel fp \<lparr>southwest = \<lparr>lat = Fin latS, lon = Fin lonS\<rparr>,
            northeast = \<lparr>lat = Fin latN, lon = Fin lonN\<rparr>\<rparr> (Fin w) (Fin h)
         = Fin (of_int (spec_zoom \<bar>latN - latS\<bar> \<bar>lonN - lonS\<bar> w h))"
proof -
  have a: "spec_zoomCandidate fp (Fin \<bar>latN - latS\<bar>) (Fin h)
      = (if \<bar>latN - latS\<bar> = 0 then Infinity
         else Fin (spec_realCandidate \<bar>latN - latS\<bar> h))"
    using assms(5) _ assms(2) by (rule candidate_exact) simp
  have b: "spec_zoomCandidate fp (Fin \<bar>lonN - lonS\<bar>) (Fin w)
      = (if \<bar>lonN - lonS\<bar> = 0 then Infinity
         else Fin (spec_realCandidate \<bar>lonN - lonS\<bar> w))"
    using assms(6) _ assms(1) by (rule candidate_exact) simp
  have "calculateZoomLevel fp \<lparr>southwest = \<lparr>lat = Fin latS, lon = Fin lonS\<rparr>,
            northeast = \<lparr>lat = Fin latN, lon = Fin lonN\<rparr>\<rparr> (Fin w) (Fin h)
      = Math_max (Fin 1) (Math_min (Fin 20) (Math_floor (Math_min
          (spec_zoomCandidate fp (Fin \<bar>latN - latS\<bar>) (Fin h))
          (spec_zoomCandidate fp (Fin \<bar>lonN - lonS\<bar>) (Fin w)))))"
    unfolding calculateZoomLevel_candidates using assms(3,4) by (simp add: minus_number_def)
  also have "\<dots> = Fin (of_int (spec_zoom \<bar>latN - latS\<bar> \<bar>lonN - lonS\<bar> w h))"
    unfolding a b by (simp add: spec_zoom_def spec_clamp_def max_def min_def)
  finally show ?thesis .
qed

lemma exactCandidate_exactMachine [simp]: "spec_exactCandidate exactMachine delta pixels"
  by (simp add: spec_exactCandidate_def exactMachine_def)

text \<open>
  C1, as amended. \<open>calculateZoomLevel\<close> takes one zoom candidate per axis,
  \<open>log2 (360 / delta) - log2 (pixels / 256)\<close> with \<open>delta\<close> the absolute difference
  of the latitudes or of the longitudes, each operation in the arithmetic of doubles,
  then the minimum of the two, floors it and clamps it to 1..20. In the arithmetic of
  doubles: when \<open>width / 256\<close> and \<open>height / 256\<close> are positive finite numbers and the
  two coordinate differences are numbers, infinite ones included, the result is an
  integer between 1 and 20; and on bounds of zero extent on both axes, for positive
  \<open>width\<close> and \<open>height\<close> whose quotient by 256 is not infinite, it is 20. On finite
  coordinates for which no operation rounds (the two differences are doubles and neither
  candidate rounds), the result is the zoom of the spec on real numbers.
\<close>

theorem calculateZoomLevel_clamped:
  fixes b :: "'a corners_scheme"
  shows "calculateZoomLevel fp b width height
     = Math_max (Fin 1) (Math_min (Fin 20) (Math_floor (Math_min
         (spec_zoomCandidate fp
            (Math_abs (rounded fp (lat (northeast b) - lat (southwest b)))) height)
         (spec_zoomCandidate fp
            (Math_abs (rounded fp (lon (northeast b) - lon (southwest b)))) width))))
   \<and> (ieee fp
        \<and> rounded fp (Fin w / Fin 256) = Fin pw \<and> 0 < pw
        \<and> rounded fp (Fin h / Fin 256) = Fin ph \<and> 0 < ph
        \<and> lat (northeast b) - lat (southwest b) \<noteq> NaN
        \<and> lon (northeast b) - lon (southwest b) \<noteq> NaN \<longrightarrow>
          (\<exists>k. calculateZoomLevel fp b (Fin w) (Fin h) = Fin (of_int k) \<and> 1 \<le> k \<and> k \<le> 20))
   \<and> (ieee fp \<and> 0 < w \<and> 0 < h
        \<and> rounded fp (Fin w / Fin 256) \<noteq> Infinity
        \<and> rounded fp (Fin h / Fin 256) \<noteq> Infinity \<longrightarrow>
          calculateZoomLevel fp \<lparr>southwest = \<lparr>lat = Fin latS, lon = Fin lonS\<rparr>,
            northeast = \<lparr>lat = Fin latS, lon = Fin lonS\<rparr>\<rparr> (Fin w) (Fin h) = Fin 20)
   \<and> (0 < w \<and> 0 < h
        \<and> rnd fp (latN - latS) = Fin (latN - latS)
        \<and> rnd fp (lonN - lonS) = Fin (lonN - lonS)
        \<and> spec_exactCandidate fp \<bar>latN - latS\<bar> h
        \<and> spec_exactCandidate fp \<bar>lonN - lonS\<bar> w \<longrightarrow>
          calculateZoomLevel fp \<lparr>southwest = \<lparr>lat = Fin latS, lon = Fin lonS\<rparr>,
            northeast = \<lparr>lat = Fin latN, lon = Fin lonN\<rparr>\<rparr> (Fin w) (Fin h)
           = Fin (of_int (spec_zoom \<bar>latN - latS\<bar> \<bar>lonN - lonS\<bar> w h)))"
  using calculateZoomLevel_candidates [of fp b width height]
    calculateZoomLevel_range [of fp w pw h ph b]
    calculateZoomLevel_zero_extent [of fp w h latS lonS]
    calculateZoomLevel_exact [of w h fp latN latS lonN lonS]
  by blast

lemma log2_8: "log 2 8 = 3"
proof -
  have "log 2 (2 ^ 3) = 3" by (subst log_nat_power) simp_all
  then show ?thesis by simp
qed

theorem calculateZoomLevel_clamped_witness:
  "ieee exactMachine
   \<and> rounded exactMachine (Fin 256 / Fin 256) = Fin 1 \<and> (0::real) < 1
   \<and> rounded exactMachine (Fin 256 / Fin 256) \<noteq> Infinity \<and> (0::real) < 256
   \<and> NegInfinity - Infinity \<noteq> NaN
   \<and> (\<exists>k. calculateZoomLevel exactMachine \<lparr>southwest = \<lparr>lat = Infinity, lon = Infinity\<rparr>,
         northeast = \<lparr>lat = NegInfinity, lon = NegInfinity\<rparr>\<rparr> (Fin 256) (Fin 256) = Fin (of_int k)
         \<and> 1 \<le> k \<and> k \<le> 20)
   \<and> calculateZoomLevel exactMachine \<lparr>southwest = \<lparr>lat = Fin 0, lon = Fin 0\<rparr>,
         northeast = \<lparr>lat = Fin 0, lon = Fin 0\<rparr>\<rparr> (Fin 256) (Fin 256) = Fin 20
   \<and> rnd exactMachine (45 - 0) = Fin (45 - 0)
   \<and> spec_exactCandidate exactMachine \<bar>45 - 0\<bar> 256
   \<and> calculateZoomLevel exactMachine \<lparr>southwest = \<lparr>lat = Fin 0, lon = Fin 0\<rparr>,
         northeast = \<lparr>lat = Fin 45, lon = Fin 45\<rparr>\<rparr> (Fin 256) (Fin 256) = Fin 3"
proof -
  let ?empty = "\<lparr>southwest = \<lparr>lat = Infinity, lon = Infinity\<rparr>,
          northeast = \<lparr>lat = NegInfinity, lon = NegInfinity\<rparr>\<rparr>"
  have q: "rounded exactMachine (Fin 256 / Fin 256) = Fin 1"
    "rounded exactMachine (Fin 256 / Fin 256) \<noteq> Infinity" by simp_all
  have pos: "(0::real) < 1" "(0::real) < 256" by simp_all
  have z: "spec_zoom 45 45 256 256 = 3"
    by (simp add: spec_zoom_def spec_realCandidate_def spec_clamp_def log2_8)
  have d: "lat (northeast ?empty) - lat (southwest ?empty) \<noteq> NaN"
    "lon (northeast ?empty) - lon (southwest ?empty) \<noteq> NaN"
    "NegInfinity - Infinity \<noteq> NaN"
    by (simp_all add: minus_number_def)
  have e: "rnd exactMachine (45 - 0) = Fin (45 - 0)"
    "spec_exactCandidate exactMachine \<bar>45 - 0\<bar> 256"
    by (rule rnd_exactMachine, rule exactCandidate_exactMachine)
  note t = calculateZoomLevel_clamped [of exactMachine ?empty "Fin 256" "Fin 256"
        256 1 256 1 0 0 45 45]
  have "\<exists>k. calculateZoomLevel exactMachine ?empty (Fin 256) (Fin 256) = Fin (of_int k)
         \<and> 1 \<le> k \<and> k \<le> 20"
    using t ieee_exactMachine q(1) pos(1) d(1,2) by blast
  moreover have "calculateZoomLevel exactMachine \<lparr>southwest = \<lparr>lat = Fin 0, lon = Fin 0\<rparr>,
         northeast = \<lparr>lat = Fin 0, lon = Fin 0\<rparr>\<rparr> (Fin 256) (Fin 256) = Fin 20"
    using t ieee_exactMachine q(2) pos(2) by blast
  moreover have "calculateZoomLevel exactMachine \<lparr>southwest = \<lparr>lat = Fin 0, lon = Fin 0\<rparr>,
         northeast = \<lparr>lat = Fin 45, lon = Fin 45\<rparr>\<rparr> (Fin 256) (Fin 256)
       = Fin (of_int (spec_zoom \<bar>45 - 0\<bar> \<bar>45 - 0\<bar> 256 256))"
    using t pos(2) e by blast
  ultimately show ?thesis
    using ieee_exactMachine q pos d(3) by (simp add: z)
qed

text \<open>
  The claim as stated, for every bounds, fails where a coordinate is not a number: the
  result is \<open>NaN\<close>, whatever the rounding, which is no integer between 1 and 20. Such
  bounds come out of the scan of a terrain file in which a point lacks its second entry.
\<close>

theorem calculateZoomLevel_NaN_counterexample:
  "calculateZoomLevel exactMachine \<lparr>southwest = \<lparr>lat = NaN, lon = Fin 139\<rparr>,
       northeast = \<lparr>lat = Fin 36, lon = Fin 140\<rparr>\<rparr> (Fin 640) (Fin 640) = NaN
   \<and> scanFeatures (Fin 0, Fin 0) initialBounds
        [\<lparr>geometry = Some \<lparr>coordinates = [[[Fin 0, Fin 0], [Fin 10]]]\<rparr>\<rparr>]
       = Inr \<lparr>minX = Fin 0, maxX = Fin 10, minY = NaN, maxY = NaN\<rparr>
   \<and> calculateZoomLevel exactMachine
        (calculateLatLonBounds exactMachine (Fin 0) (Fin 10) NaN NaN (Fin 35) (Fin 139))
        (Fin 640) (Fin 640) = NaN"
  by (simp add: calculateZoomLevel_def calculateLatLonBounds_def transformToLatLon_def
      scanFeature_def scanPoint_def Let_def initialBounds_def index_def)

section \<open>loadAerialImagery.ts: the planar bounds\<close>

lemma scanFeatures_fold:
  "scanFeatures c acc fs = Inr b \<Longrightarrow> b = foldl (scanPoint c) acc (scannedPoints fs)"
proof (induction fs arbitrary: acc)
  case Nil
  then show ?case by (simp add: scannedPoints_def)
next
  case (Cons f fs)
  from Cons.prems obtain acc' where f: "scanFeature c acc f = Inr acc'"
    and rest: "scanFeatures c acc' fs = Inr b"
    by (auto split: sum.splits)
  from f obtain g ring others where g: "geometry f = Some g" "coordinates g = ring # others"
    and acc': "acc' = foldl (scanPoint c) acc ring"
    by (auto simp: scanFeature_def split: option.splits list.splits)
  have "scannedPoints (f # fs) = ring @ scannedPoints fs"
    using g by (simp add: scannedPoints_def)
  with Cons.IH [OF rest] acc' show ?case by simp
qed

lemma scanPoint_step:
  assumes "numericBounds acc" and "numeric (recenter c p)"
  shows "numericBounds (scanPoint c acc p) \<and> widens acc (scanPoint c acc p)
         \<and> inside (scanPoint c acc p) (recenter c p)"
  using assms
  by (simp add: numericBounds_def numeric_def recenter_def scanPoint_def Let_def widens_def
      inside_def Math_min_not_NaN Math_max_not_NaN Math_min_le Math_max_ge)

lemma widens_trans: "widens a b \<Longrightarrow> widens b c \<Longrightarrow> widens a c"
  unfolding widens_def by (meson less_eq_number_trans)

lemma widens_refl: "numericBounds a \<Longrightarrow> widens a a"
  by (simp add: widens_def numericBounds_def less_eq_number_refl)

lemma inside_widens: "inside a q \<Longrightarrow> widens a b \<Longrightarrow> inside b q"
  unfolding widens_def inside_def by (meson less_eq_number_trans)

lemma scan_fold_invariant:
  assumes "numericBounds acc" and "\<forall>p \<in> set ps. numeric (recenter c p)"
  shows "numericBounds (foldl (scanPoint c) acc ps)
         \<and> widens acc (foldl (scanPoint c) acc ps)
         \<and> (\<forall>p \<in> set ps. inside (foldl (scanPoint c) acc ps) (recenter c p))"
  using assms
proof (induction ps arbitrary: acc)
  case Nil
  then show ?case by (simp add: widens_refl)
next
  case (Cons p ps)
  let ?acc' = "scanPoint c acc p"
  have step: "numericBounds ?acc'" "widens acc ?acc'" "inside ?acc' (recenter c p)"
    using scanPoint_step [of acc c p] Cons.prems by simp_all
  have ih: "numericBounds (foldl (scanPoint c) ?acc' ps)"
    "widens ?acc' (foldl (scanPoint c) ?acc' ps)"
    "\<forall>q \<in> set ps. inside (foldl (scanPoint c) ?acc' ps) (recenter c q)"
    using Cons.IH [of ?acc'] step(1) Cons.prems(2) by simp_all
  show ?case
    using step ih widens_trans [of acc ?acc'] inside_widens [of ?acc' "recenter c p"]
    by simp
qed

text \<open>
  C8, as amended. The bounds are accumulated from \<open>Infinity\<close> and \<open>-Infinity\<close> over the
  points of the first ring of each feature, each moved by the scene origin, in order.
  When every such moved point is a pair of numbers, each further point can only widen
  the bounds (\<open>minX\<close>, \<open>minY\<close> never increase and \<open>maxX\<close>, \<open>maxY\<close> never decrease), and
  every scanned point, moved, lies within the final bounds.
\<close>

theorem planar_bounds_monotone:
  assumes "scanFeatures c initialBounds fs = Inr b"
    and "\<forall>p \<in> set (scannedPoints fs). numeric (recenter c p)"
  shows "b = foldl (scanPoint c) initialBounds (scannedPoints fs)
       \<and> (\<forall>n < length (scannedPoints fs).
            widens (foldl (scanPoint c) initialBounds (take n (scannedPoints fs)))
                   (foldl (scanPoint c) initialBounds (take (Suc n) (scannedPoints fs))))
       \<and> (\<forall>p \<in> set (scannedPoints fs). inside b (recenter c p))"
proof -
  let ?ps = "scannedPoints fs"
  have init: "numericBounds initialBounds"
    by (simp add: numericBounds_def initialBounds_def)
  have b: "b = foldl (scanPoint c) initialBounds ?ps"
    using assms(1) by (rule scanFeatures_fold)
  have "widens (foldl (scanPoint c) initialBounds (take n ?ps))
               (foldl (scanPoint c) initialBounds (take (Suc n) ?ps))"
    if n: "n < length ?ps" for n
  proof -
    have "\<forall>p \<in> set (take n ?ps). numeric (recenter c p)"
      using assms(2) by (meson in_set_takeD)
    then have "numericBounds (foldl (scanPoint c) initialBounds (take n ?ps))"
      using scan_fold_invariant [OF init] by blast
    moreover have "numeric (recenter c (?ps ! n))"
      using assms(2) n by simp
    ultimately show ?thesis
      using scanPoint_step n by (simp add: take_Suc_conv_app_nth)
  qed
  moreover have "\<forall>p \<in> set ?ps. inside b (recenter c p)"
    using scan_fold_invariant [OF init assms(2)] b by simp
  ultimately show ?thesis using b by blast
qed

theorem planar_bounds_monotone_witness:
  "scanFeatures (Fin 10, Fin 5) initialBounds
      [\<lparr>geometry = Some \<lparr>coordinates = [[[Fin 10, Fin 20], [Fin 30, Fin 5]]]\<rparr>\<rparr>]
     = Inr \<lparr>minX = Fin 0, maxX = Fin 20, minY = Fin 0, maxY = Fin 15\<rparr>
   \<and> numeric (recenter (Fin 10, Fin 5) [Fin 10, Fin 20])
   \<and> numeric (recenter (Fin 10, Fin 5) [Fin 30, Fin 5])
   \<and> widens \<lparr>minX = Fin 0, maxX = Fin 0, minY = Fin 15, maxY = Fin 15\<rparr>
             \<lparr>minX = Fin 0, maxX = Fin 20, minY = Fin 0, maxY = Fin 15\<rparr>
   \<and> inside \<lparr>minX = Fin 0, maxX = Fin 20, minY = Fin 0, maxY = Fin 15\<rparr> (Fin 0, Fin 15)
   \<and> inside \<lparr>minX = Fin 0, maxX = Fin 20, minY = Fin 0, maxY = Fin 15\<rparr> (Fin 20, Fin 0)"
proof -
  let ?fs = "[\<lparr>geometry = Some \<lparr>coordinates = [[[Fin 10, Fin 20], [Fin 30, Fin 5]]]\<rparr>\<rparr>]"
  let ?b = "\<lparr>minX = Fin 0, maxX = Fin 20, minY = Fin 0, maxY = Fin 15\<rparr>"
  have pts: "scannedPoints ?fs = [[Fin 10, Fin 20], [Fin 30, Fin 5]]"
    by (simp add: scannedPoints_def)
  have scan: "scanFeatures (Fin 10, Fin 5) initialBounds ?fs = Inr ?b"
    by (simp add: scanFeature_def scanPoint_def Let_def initialBounds_def index_def)
  have num: "\<forall>p \<in> set (scannedPoints ?fs). numeric (recenter (Fin 10, Fin 5) p)"
    by (simp add: pts numeric_def recenter_def index_def)
  have one: "(1::nat) < length (scannedPoints ?fs)"
    by (simp add: pts)
  have prefix: "foldl (scanPoint (Fin 10, Fin 5)) initialBounds (take 1 (scannedPoints ?fs))
      = \<lparr>minX = Fin 0, maxX = Fin 0, minY = Fin 15, maxY = Fin 15\<rparr>"
    by (simp add: pts scanPoint_def Let_def initialBounds_def index_def)
  have whole: "foldl (scanPoint (Fin 10, Fin 5)) initialBounds (take (Suc 1) (scannedPoints ?fs)) = ?b"
    by (simp add: pts scanPoint_def Let_def initialBounds_def index_def)
  from planar_bounds_monotone [OF scan num] have
    "widens (foldl (scanPoint (Fin 10, Fin 5)) initialBounds (take 1 (scannedPoints ?fs)))
            (foldl (scanPoint (Fin 10, Fin 5)) initialBounds (take (Suc 1) (scannedPoints ?fs)))"
    and ins: "\<forall>p \<in> set (scannedPoints ?fs). inside ?b (recenter (Fin 10, Fin 5) p)"
    using one by blast+
  then have w: "widens \<lparr>minX = Fin 0, maxX = Fin 0, minY = Fin 15, maxY = Fin 15\<rparr> ?b"
    unfolding prefix whole by simp
  have "inside ?b (Fin 0, Fin 15)" "inside ?b (Fin 20, Fin 0)"
    using ins by (simp_all add: pts recenter_def index_def)
  moreover have "numeric (recenter (Fin 10, Fin 5) [Fin 10, Fin 20])"
    "numeric (recenter (Fin 10, Fin 5) [Fin 30, Fin 5])"
    using num by (simp_all add: pts)
  ultimately show ?thesis
    using scan w by blast
qed

text \<open>
  The claim as stated fails twice. Not all coordinate pairs of the collection are
  scanned: a point of a second ring stays outside the bounds. And a point with a missing
  entry turns a bound into \<open>NaN\<close>, which widens nothing.
\<close>

theorem planar_bounds_counterexample:
  "scanFeatures (Fin 0, Fin 0) initialBounds
      [\<lparr>geometry = Some \<lparr>coordinates = [[[Fin 0, Fin 0], [Fin 1, Fin 1]], [[Fin 5, Fin 5]]]\<rparr>\<rparr>]
     = Inr \<lparr>minX = Fin 0, maxX = Fin 1, minY = Fin 0, maxY = Fin 1\<rparr>
   \<and> [Fin 5, Fin 5] \<in> set (allPoints
      [\<lparr>geometry = Some \<lparr>coordinates = [[[Fin 0, Fin 0], [Fin 1, Fin 1]], [[Fin 5, Fin 5]]]\<rparr>\<rparr>])
   \<and> \<not> inside \<lparr>minX = Fin 0, maxX = Fin 1, minY = Fin 0, maxY = Fin 1\<rparr>
          (recenter (Fin 0, Fin 0) [Fin 5, Fin 5])
   \<and> scanPoint (Fin 0, Fin 0) \<lparr>minX = Fin 0, maxX = Fin 1, minY = Fin 0, maxY = Fin 1\<rparr> [Fin 5]
     = \<lparr>minX = Fin 0, maxX = Fin 5, minY = NaN, maxY = NaN\<rparr>
   \<and> \<not> widens \<lparr>minX = Fin 0, maxX = Fin 1, minY = Fin 0, maxY = Fin 1\<rparr>
          (scanPoint (Fin 0, Fin 0) \<lparr>minX = Fin 0, maxX = Fin 1, minY = Fin 0, maxY = Fin 1\<rparr> [Fin 5])"
  by (simp add: scanFeature_def scanPoint_def Let_def initialBounds_def index_def allPoints_def
      inside_def recenter_def widens_def)

section \<open>loadAerialImagery.ts: the imagery plane and the counter\<close>

lemma map_of_addChild:
  "map_of sc n = Some ms \<Longrightarrow> map_of (addChild n m sc) n = Some (ms @ [m])"
  by (induction sc) (auto split: if_splits)

lemma addToScene_existing:
  assumes "getObjectByName (scene w) ''terrain'' = Some ms"
  shows "getObjectByName (scene (addToScene m w)) ''terrain'' = Some (ms @ [m])"
    and "gui (addToScene m w) = gui w"
  using assms by (simp_all add: addToScene_def getObjectByName_def map_of_addChild)

lemma addToScene_fresh:
  assumes "getObjectByName (scene w) ''terrain'' = None"
  shows "getObjectByName (scene (addToScene m w)) ''terrain'' = Some [m]"
    and "gui (addToScene m w) = gui w @ [''aerialImagery'']"
  using assms by (simp_all add: addToScene_def getObjectByName_def map_add_def)

lemma addToScene_children: "terrainChildren (addToScene m w) = terrainChildren w @ [m]"
proof (cases "getObjectByName (scene w) ''terrain''")
  case None
  then show ?thesis using addToScene_fresh(1) [OF None] by (simp add: terrainChildren_def)
next
  case (Some ms)
  then show ?thesis using addToScene_existing(1) [OF Some] by (simp add: terrainChildren_def)
qed

lemma addToScene_group: "getObjectByName (scene (addToScene m w)) ''terrain'' \<noteq> None"
  by (cases "getObjectByName (scene w) ''terrain''")
    (simp_all add: addToScene_fresh(1) addToScene_existing(1))

lemma addToScene_toggles:
  "toggles (addToScene m w)
     = (if getObjectByName (scene w) ''terrain'' = None then toggles w + 1 else toggles w)"
  by (cases "getObjectByName (scene w) ''terrain''")
    (simp_all add: toggles_def addToScene_fresh(2) addToScene_existing(2))

lemma addToScene_counter:
  "loadFileRemaining (addToScene m w) = loadFileRemaining w"
  "pending (addToScene m w) = pending w"
  by (simp_all add: addToScene_def split: option.splits)

lemma resume_is_addToScene:
  "\<exists>m. createRealAerialImageryTexture_resume has2d oc j w = addToScene m w"
  by (cases oc) (auto simp: createRealAerialImageryTexture_resume_def createFallbackTexture_def Let_def)

lemma resume_toggles:
  "toggles (createRealAerialImageryTexture_resume has2d oc j w)
     = (if getObjectByName (scene w) ''terrain'' = None then toggles w + 1 else toggles w)"
  using resume_is_addToScene [of has2d oc j w] addToScene_toggles [of _ w] by force

lemma resume_group:
  "getObjectByName (scene (createRealAerialImageryTexture_resume has2d oc j w)) ''terrain'' \<noteq> None"
  using resume_is_addToScene [of has2d oc j w] addToScene_group [of _ w] by force

lemma resume_children:
  "length (terrainChildren (createRealAerialImageryTexture_resume has2d oc j w))
     = length (terrainChildren w) + 1"
  using resume_is_addToScene [of has2d oc j w] addToScene_children [of _ w] by force

lemma placeAll_toggles:
  "toggles (placeAll evs w)
     = (if getObjectByName (scene w) ''terrain'' = None \<and> evs \<noteq> [] then toggles w + 1
        else toggles w)"
proof (induction evs arbitrary: w)
  case Nil
  then show ?case by simp
next
  case (Cons ev evs)
  obtain has2d oc j where ev: "ev = (has2d, oc, j)" by (cases ev)
  show ?case
    unfolding ev placeAll.simps Cons.IH
    by (simp add: resume_group resume_toggles)
qed

lemma placeAll_children:
  "length (terrainChildren (placeAll evs w)) = length (terrainChildren w) + length evs"
proof (induction evs arbitrary: w)
  case Nil
  then show ?case by simp
next
  case (Cons ev evs)
  obtain has2d oc j where ev: "ev = (has2d, oc, j)" by (cases ev)
  show ?case
    unfolding ev placeAll.simps Cons.IH
    by (simp add: resume_children)
qed

text \<open>
  C6. A placement, with the loaded image or with the fallback canvas, registers one
  visibility control when the scene has no group named terrain, and none when it has
  one; afterwards the group exists. So a sequence of placements adds one control if it
  is not empty and starts without the group, and none otherwise, while the group gains
  one plane per placement: no sequence of placements produces a second control.
\<close>

theorem placement_registers_one_toggle:
  "toggles (createRealAerialImageryTexture_resume has2d oc j w)
     = (if getObjectByName (scene w) ''terrain'' = None then toggles w + 1 else toggles w)
   \<and> getObjectByName (scene (createRealAerialImageryTexture_resume has2d oc j w)) ''terrain''
       \<noteq> None
   \<and> toggles (placeAll evs w)
     = (if getObjectByName (scene w) ''terrain'' = None \<and> evs \<noteq> [] then toggles w + 1
        else toggles w)
   \<and> length (terrainChildren (placeAll evs w)) = length (terrainChildren w) + length evs
   \<and> toggles (placeAll evs w) \<le> toggles w + 1
   \<and> toggles (placeAll evs (createRealAerialImageryTexture_resume has2d oc j w))
     = toggles (createRealAerialImageryTexture_resume has2d oc j w)"
  using resume_toggles resume_group placeAll_toggles placeAll_children by simp

text \<open>
  C4, as amended. When the scan of the terrain file completes, the loader callback
  starts the texture job and decrements the counter, once, in the same run: the job is
  pending and nothing is placed yet. When the texture loader settles, in whatever scene
  the job then finds, success adds a plane with the loaded image to the group named
  terrain and rejection adds a plane of the same geometry with the fallback canvas; both
  leave the group in the scene and the counter as it was, and neither has an error
  result.
\<close>

theorem imagery_failure_handled:
  assumes "scanFeatures c initialBounds features = Inr b"
  shows "(let j = createRealAerialImageryTexture_start fp e str latitude longitude b
          in loadAerialImagery_onLoad fp e str c latitude longitude features w
               = Inr (w\<lparr>pending := pending w @ [j], loadFileRemaining := loadFileRemaining w - 1\<rparr>)
           \<and> terrainChildren (createRealAerialImageryTexture_resume has2d Resolved j w')
               = terrainChildren w' @ [makePlane b (ImageTexture (imageUrl j)) 0.8]
           \<and> (\<exists>colour. terrainChildren (createRealAerialImageryTexture_resume has2d Rejected j w')
               = terrainChildren w' @ [makePlane b (CanvasTexture colour) 0.7])
           \<and> getObjectByName (scene (createRealAerialImageryTexture_resume has2d oc j w')) ''terrain''
               \<noteq> None
           \<and> loadFileRemaining (createRealAerialImageryTexture_resume has2d oc j w')
               = loadFileRemaining w')"
proof -
  define j where "j = createRealAerialImageryTexture_start fp e str latitude longitude b"
  have jb: "jobBounds j = b"
    by (simp add: j_def createRealAerialImageryTexture_start_def Let_def)
  have load: "loadAerialImagery_onLoad fp e str c latitude longitude features w
      = Inr (w\<lparr>pending := pending w @ [j], loadFileRemaining := loadFileRemaining w - 1\<rparr>)"
    using assms by (simp add: loadAerialImagery_onLoad_def j_def)
  have ok: "terrainChildren (createRealAerialImageryTexture_resume has2d Resolved j w')
      = terrainChildren w' @ [makePlane b (ImageTexture (imageUrl j)) 0.8]"
    by (simp add: createRealAerialImageryTexture_resume_def addToScene_children jb)
  have fallback: "\<exists>colour. terrainChildren (createRealAerialImageryTexture_resume has2d Rejected j w')
      = terrainChildren w' @ [makePlane b (CanvasTexture colour) 0.7]"
    by (simp add: createRealAerialImageryTexture_resume_def createFallbackTexture_def Let_def
        addToScene_children jb del: less_number.simps) blast
  have counter: "loadFileRemaining (createRealAerialImageryTexture_resume has2d oc j w')
      = loadFileRemaining w'"
    using resume_is_addToScene [of has2d oc j w'] addToScene_counter(1) [of _ w'] by force
  show ?thesis
    unfolding Let_def j_def [symmetric]
    using load ok fallback counter resume_group [of has2d oc j w'] by blast
qed

lemma scan_squareTerrain:
  "scanFeatures (Fin 0, Fin 0) initialBounds squareTerrain = Inr squareBounds"
  by (simp add: squareTerrain_def squareBounds_def scanFeature_def scanPoint_def Let_def
      initialBounds_def index_def)

theorem imagery_failure_handled_witness:
  "scanFeatures (Fin 0, Fin 0) initialBounds squareTerrain = Inr squareBounds
   \<and> loadAerialImagery_onLoad exactMachine noKeys blankText (Fin 0, Fin 0) (Fin 35) (Fin 139) squareTerrain
        freshWorld
      = Inr \<lparr>scene = [], gui = [], loadFileRemaining = 0,
             pending = [createRealAerialImageryTexture_start exactMachine noKeys blankText (Fin 35) (Fin 139)
                          squareBounds]\<rparr>
   \<and> terrainChildren (createRealAerialImageryTexture_resume True Resolved
        (createRealAerialImageryTexture_start exactMachine noKeys blankText (Fin 35) (Fin 139) squareBounds)
        freshWorld)
      = [makePlane squareBounds (ImageTexture (imageUrl
           (createRealAerialImageryTexture_start exactMachine noKeys blankText (Fin 35) (Fin 139) squareBounds)))
           0.8]
   \<and> loadFileRemaining (createRealAerialImageryTexture_resume True Rejected
        (createRealAerialImageryTexture_start exactMachine noKeys blankText (Fin 35) (Fin 139) squareBounds)
        freshWorld) = 1"
  using imagery_failure_handled [OF scan_squareTerrain, of exactMachine noKeys blankText "Fin 35" "Fin 139"
      freshWorld True freshWorld Rejected]
  by (simp add: Let_def scan_squareTerrain freshWorld_def terrainChildren_def getObjectByName_def)

text \<open>
  The claim as stated puts the decrement at the placement. On a terrain file with one
  square, the callback leaves the counter at 0 with the job pending and the scene
  empty; the rejection of the image then places the fallback plane and leaves the
  counter at 0.
\<close>

theorem decrement_before_placed_counterexample:
  "loadAerialImagery_onLoad exactMachine noKeys blankText (Fin 0, Fin 0) (Fin 35) (Fin 139) squareTerrain
        \<lparr>scene = [], gui = [], loadFileRemaining = 1, pending = []\<rparr>
      = Inr \<lparr>scene = [], gui = [], loadFileRemaining = 0,
             pending = [createRealAerialImageryTexture_start exactMachine noKeys blankText (Fin 35) (Fin 139)
                          squareBounds]\<rparr>
   \<and> createRealAerialImageryTexture_resume True Rejected
        (createRealAerialImageryTexture_start exactMachine noKeys blankText (Fin 35) (Fin 139) squareBounds)
        \<lparr>scene = [], gui = [], loadFileRemaining = 0, pending = []\<rparr>
      = \<lparr>scene = [(''terrain'', [makePlane squareBounds (CanvasTexture (Some ''#6B8E23'')) 0.7])],
         gui = [''aerialImagery''], loadFileRemaining = 0, pending = []\<rparr>"
  by (simp add: loadAerialImagery_onLoad_def scan_squareTerrain
      createRealAerialImageryTexture_resume_def createRealAerialImageryTexture_start_def
      createFallbackTexture_def addToScene_def getObjectByName_def Let_def)

section \<open>loadAerialImagery.ts: the image URL\<close>

lemma truthy_or_else: "truthy (or_else a b) = (truthy a \<or> truthy b)"
  by (simp add: or_else_def)

lemma mercator_argument_pos:
  assumes "- 90 < a" and "a < 90"
  shows "0 < cos (a * pi / 180)" and "0 < tan (a * pi / 180) + 1 / cos (a * pi / 180)"
proof -
  let ?x = "a * pi / 180"
  have "(- 90) * pi < a * pi" "a * pi < 90 * pi"
    using mult_strict_right_mono [OF assms(1) pi_gt_zero]
      mult_strict_right_mono [OF assms(2) pi_gt_zero] by simp_all
  then have "- (pi / 2) < ?x" "?x < pi / 2"
    by simp_all
  then show c: "0 < cos ?x" by (rule cos_gt_zero_pi)
  have "sin ?x \<noteq> - 1"
  proof
    assume "sin ?x = - 1"
    then have "cos ?x = 0" using sin_cos_squared_add [of ?x] by simp
    with c show False by simp
  qed
  moreover have "- 1 \<le> sin ?x" by simp
  ultimately have "0 < sin ?x + 1" by linarith
  moreover have "tan ?x + 1 / cos ?x = (sin ?x + 1) / cos ?x"
    by (simp add: tan_def add_divide_distrib)
  ultimately show "0 < tan ?x + 1 / cos ?x" using c by simp
qed

lemma tileX_exact:
  assumes "spec_exactColumn fp b z"
  shows "tileX fp \<lparr>lat = Fin a, lon = Fin b\<rparr> (Fin z) = Fin (of_int (spec_tileX b z))"
  using assms by (simp add: tileX_def spec_tileX_def spec_exactColumn_def)

lemma tileY_exact:
  assumes "- 90 < a" and "a < 90" and "spec_exactRow fp a z"
  shows "tileY fp \<lparr>lat = Fin a, lon = Fin b\<rparr> (Fin z) = Fin (of_int (spec_tileY a z))"
proof -
  let ?phi = "a * pi / 180"
  let ?m = "tan ?phi + 1 / cos ?phi"
  let ?t = "1 - ln ?m / pi"
  note pos = mercator_argument_pos [OF assms(1,2)]
  have e: "rnd fp pi = Fin pi" "rnd fp (a * pi) = Fin (a * pi)" "rnd fp ?phi = Fin ?phi"
    "tanF fp ?phi = Fin (tan ?phi)" "cosF fp ?phi = Fin (cos ?phi)"
    "rnd fp (1 / cos ?phi) = Fin (1 / cos ?phi)" "rnd fp ?m = Fin ?m"
    "logF fp ?m = Fin (ln ?m)" "rnd fp (ln ?m / pi) = Fin (ln ?m / pi)"
    "rnd fp ?t = Fin ?t" "rnd fp (?t / 2) = Fin (?t / 2)"
    "pow2F fp z = Fin (2 powr z)" "rnd fp (?t / 2 * 2 powr z) = Fin (?t / 2 * 2 powr z)"
    using assms(3) unfolding spec_exactRow_def Let_def by blast+
  have angle: "rounded fp (rounded fp (Fin a * Math_PI fp) / Fin 180) = Fin ?phi"
    by (simp only: Math_PI_def e times_number.simps rounded.simps divide_number.simps)
       (simp add: e)
  have cosine: "Math_cos fp (Fin ?phi) = Fin (cos ?phi)"
    by (simp only: Math_cos.simps e)
  have secant: "rounded fp (Fin 1 / Fin (cos ?phi)) = Fin (1 / cos ?phi)"
    using pos(1) e(6) by simp
  have tangent: "Math_tan fp (Fin ?phi) = Fin (tan ?phi)"
    by (simp only: Math_tan.simps e)
  have argument: "rounded fp (Fin (tan ?phi) + Fin (1 / cos ?phi)) = Fin ?m"
    using e(7) by simp
  have logarithm: "Math_log fp (Fin ?m) = Fin (ln ?m)"
    using pos(2) e(8) by simp
  have quotient: "rounded fp (Fin (ln ?m) / Math_PI fp) = Fin (ln ?m / pi)"
    using e(1,9) pi_gt_zero by (simp add: Math_PI_def)
  have difference: "rounded fp (Fin 1 - Fin (ln ?m / pi)) = Fin ?t"
    using e(10) by (simp add: minus_number_def)
  have half: "rounded fp (Fin ?t / Fin 2) = Fin (?t / 2)"
    using e(11) by simp
  have product: "rounded fp (Fin (?t / 2) * Math_pow2 fp (Fin z)) = Fin (?t / 2 * 2 powr z)"
    using e(12,13) by simp
  have "tileY fp \<lparr>lat = Fin a, lon = Fin b\<rparr> (Fin z) = Math_floor (Fin (?t / 2 * 2 powr z))"
    unfolding tileY_def Let_def latlon.simps
    by (simp only: angle cosine secant tangent argument logarithm quotient difference half product)
  then show ?thesis by (simp add: spec_tileY_def)
qed

lemma tileY_equator:
  assumes "spec_equatorRow fp z"
  shows "tileY fp \<lparr>lat = Fin 0, lon = Fin b\<rparr> (Fin z) = Fin (of_int \<lfloor>2 powr z / 2\<rfloor>)"
proof -
  from assms obtain p where p: "0 < p" "rnd fp pi = Fin p"
    and e: "rnd fp 0 = Fin 0" "rnd fp 1 = Fin 1" "rnd fp (1 / 2) = Fin (1 / 2)"
      "tanF fp 0 = Fin 0" "cosF fp 0 = Fin 1" "logF fp 1 = Fin 0"
      "pow2F fp z = Fin (2 powr z)" "rnd fp (2 powr z / 2) = Fin (2 powr z / 2)"
    unfolding spec_equatorRow_def by blast
  show ?thesis
    using p e by (simp add: tileY_def Math_PI_def Let_def minus_number_def)
qed

lemma spec_tileY_equator: "spec_tileY 0 z = \<lfloor>2 powr z / 2\<rfloor>"
  by (simp add: spec_tileY_def)

lemma exactColumn_exactMachine [simp]: "spec_exactColumn exactMachine b z"
  by (simp add: spec_exactColumn_def exactMachine_def)

lemma exactRow_exactMachine [simp]: "spec_exactRow exactMachine a z"
  by (simp add: spec_exactRow_def exactMachine_def Let_def)

lemma equatorRow_exactMachine [simp]: "spec_equatorRow exactMachine z"
  unfolding spec_equatorRow_def
  by (intro conjI exI [of _ pi]) (simp_all add: exactMachine_def)

text \<open>
  C7. The key is the first of the two environment variables that is set to a non-empty
  text. With a key the URL is the static-map URL of the keyed provider, with the center
  of the bounds, the zoom, the pixel size and the key. Without one, which is an
  ordinary branch and no error, it is the tile URL of the fallback provider, with the
  zoom, the row and the column of the tile. The column is the floor of
  \<open>(lon + 180) / 360 * 2^zoom\<close> and the row the floor of
  \<open>(1 - log (tan phi + 1 / cos phi) / PI) / 2 * 2^zoom\<close> with \<open>phi = lat * PI / 180\<close>,
  each operation in the arithmetic of doubles. On a finite center and zoom for which no
  operation of the column rounds, the column is the column of the spec on real numbers.
  On the equator the row is the floor of half of \<open>2^zoom\<close>, which is the row of the
  Mercator formula there. For a latitude strictly between the poles the row is the row
  of the Mercator formula on real numbers in an arithmetic that rounds no operation of
  the row.
\<close>

theorem getAerialImageUrl_provider:
  "(truthy (NEXT_PUBLIC_GOOGLE_MAPS_API_KEY e) \<or> truthy (GOOGLE_MAPS_API_KEY e) \<longrightarrow>
      (\<exists>key. key \<noteq> []
         \<and> (if truthy (NEXT_PUBLIC_GOOGLE_MAPS_API_KEY e)
             then NEXT_PUBLIC_GOOGLE_MAPS_API_KEY e else GOOGLE_MAPS_API_KEY e) = Some key
         \<and> getAerialImageUrl fp e str bnds zoom width height
           = ''https://maps.googleapis.com/maps/api/staticmap?center=''
             @ str (lat (bounds.center bnds)) @ '','' @ str (lon (bounds.center bnds))
             @ ''&zoom='' @ str zoom @ ''&size='' @ str width @ ''x'' @ str height
             @ ''&maptype=satellite&key='' @ key))
   \<and> (\<not> truthy (NEXT_PUBLIC_GOOGLE_MAPS_API_KEY e) \<and> \<not> truthy (GOOGLE_MAPS_API_KEY e) \<longrightarrow>
        getAerialImageUrl fp e str bnds zoom width height
          = ''https://server.arcgisonline.com/ArcGIS/rest/services/World_Imagery/MapServer/tile/''
            @ str zoom @ ''/'' @ str (tileY fp (bounds.center bnds) zoom)
            @ ''/'' @ str (tileX fp (bounds.center bnds) zoom))
   \<and> tileX fp c zoom
       = Math_floor (rounded fp (rounded fp (rounded fp (lon c + Fin 180) / Fin 360)
                                 * Math_pow2 fp zoom))
   \<and> tileY fp c zoom
       = Math_floor (rounded fp (rounded fp (rounded fp
           (Fin 1 - rounded fp
              (Math_log fp (rounded fp
                 (Math_tan fp (rounded fp (rounded fp (lat c * Math_PI fp) / Fin 180))
                  + rounded fp (Fin 1
                      / Math_cos fp (rounded fp (rounded fp (lat c * Math_PI fp) / Fin 180)))))
               / Math_PI fp))
           / Fin 2) * Math_pow2 fp zoom))
   \<and> (spec_exactColumn fp b z \<longrightarrow>
        tileX fp \<lparr>lat = Fin a, lon = Fin b\<rparr> (Fin z) = Fin (of_int (spec_tileX b z)))
   \<and> (spec_equatorRow fp z \<longrightarrow>
        tileY fp \<lparr>lat = Fin 0, lon = Fin b\<rparr> (Fin z) = Fin (of_int \<lfloor>2 powr z / 2\<rfloor>)
        \<and> spec_tileY 0 z = \<lfloor>2 powr z / 2\<rfloor>)
   \<and> (- 90 < a \<and> a < 90 \<and> spec_exactRow fp a z \<longrightarrow>
        tileY fp \<lparr>lat = Fin a, lon = Fin b\<rparr> (Fin z) = Fin (of_int (spec_tileY a z)))"
proof -
  have keyed: "\<exists>key. key \<noteq> []
         \<and> (if truthy (NEXT_PUBLIC_GOOGLE_MAPS_API_KEY e)
             then NEXT_PUBLIC_GOOGLE_MAPS_API_KEY e else GOOGLE_MAPS_API_KEY e) = Some key
         \<and> getAerialImageUrl fp e str bnds zoom width height
           = ''https://maps.googleapis.com/maps/api/staticmap?center=''
             @ str (lat (bounds.center bnds)) @ '','' @ str (lon (bounds.center bnds))
             @ ''&zoom='' @ str zoom @ ''&size='' @ str width @ ''x'' @ str height
             @ ''&maptype=satellite&key='' @ key"
    if "truthy (NEXT_PUBLIC_GOOGLE_MAPS_API_KEY e) \<or> truthy (GOOGLE_MAPS_API_KEY e)"
  proof -
    let ?k = "or_else (NEXT_PUBLIC_GOOGLE_MAPS_API_KEY e) (GOOGLE_MAPS_API_KEY e)"
    have t: "truthy ?k" using that by (simp add: truthy_or_else)
    then obtain key where key: "?k = Some key" "key \<noteq> []"
      by (auto simp: truthy_def split: option.splits)
    have "getAerialImageUrl fp e str bnds zoom width height
           = ''https://maps.googleapis.com/maps/api/staticmap?center=''
             @ str (lat (bounds.center bnds)) @ '','' @ str (lon (bounds.center bnds))
             @ ''&zoom='' @ str zoom @ ''&size='' @ str width @ ''x'' @ str height
             @ ''&maptype=satellite&key='' @ key"
      using t key(1) by (simp add: getAerialImageUrl_def Let_def interpolate_def)
    then show ?thesis using key by (auto simp: or_else_def)
  qed
  have tiles: "getAerialImageUrl fp e str bnds zoom width height
          = ''https://server.arcgisonline.com/ArcGIS/rest/services/World_Imagery/MapServer/tile/''
            @ str zoom @ ''/'' @ str (tileY fp (bounds.center bnds) zoom)
            @ ''/'' @ str (tileX fp (bounds.center bnds) zoom)"
    if "\<not> truthy (NEXT_PUBLIC_GOOGLE_MAPS_API_KEY e) \<and> \<not> truthy (GOOGLE_MAPS_API_KEY e)"
    using that by (simp add: getAerialImageUrl_def Let_def truthy_or_else)
  have column: "tileX fp c zoom
       = Math_floor (rounded fp (rounded fp (rounded fp (lon c + Fin 180) / Fin 360)
                                 * Math_pow2 fp zoom))"
    by (simp add: tileX_def)
  have row: "tileY fp c zoom
       = Math_floor (rounded fp (rounded fp (rounded fp
           (Fin 1 - rounded fp
              (Math_log fp (rounded fp
                 (Math_tan fp (rounded fp (rounded fp (lat c * Math_PI fp) / Fin 180))
                  + rounded fp (Fin 1
                      / Math_cos fp (rounded fp (rounded fp (lat c * Math_PI fp) / Fin 180)))))
               / Math_PI fp))
           / Fin 2) * Math_pow2 fp zoom))"
    by (simp add: tileY_def Let_def)
  show ?thesis
    using keyed tiles column row tileX_exact [of fp b z a] tileY_equator [of fp z b]
      spec_tileY_equator [of z] tileY_exact [of a fp z b]
    by blast
qed

theorem getAerialImageUrl_provider_witness:
  "truthy (Some ''KEY'')
   \<and> getAerialImageUrl exactMachine
        \<lparr>NEXT_PUBLIC_GOOGLE_MAPS_API_KEY = Some ''KEY'', GOOGLE_MAPS_API_KEY = None\<rparr>
        blankText
        (calculateLatLonBounds exactMachine (Fin 0) (Fin 10) (Fin 0) (Fin 10) (Fin 35) (Fin 139))
        (Fin 20) (Fin 640) (Fin 640)
      = ''https://maps.googleapis.com/maps/api/staticmap?center=,&zoom=&size=x&maptype=satellite&key=KEY''
   \<and> \<not> truthy None
   \<and> getAerialImageUrl exactMachine noKeys blankText
        (calculateLatLonBounds exactMachine (Fin 0) (Fin 10) (Fin 0) (Fin 10) (Fin 35) (Fin 139))
        (Fin 20) (Fin 640) (Fin 640)
      = ''https://server.arcgisonline.com/ArcGIS/rest/services/World_Imagery/MapServer/tile///''
   \<and> - 90 < (0::real) \<and> (0::real) < 90
   \<and> spec_exactColumn exactMachine 0 1
   \<and> spec_equatorRow exactMachine 1
   \<and> spec_exactRow exactMachine 0 1
   \<and> tileX exactMachine \<lparr>lat = Fin 0, lon = Fin 0\<rparr> (Fin 1) = Fin 1
   \<and> tileY exactMachine \<lparr>lat = Fin 0, lon = Fin 0\<rparr> (Fin 1) = Fin 1"
proof -
  let ?bnds = "calculateLatLonBounds exactMachine (Fin 0) (Fin 10) (Fin 0) (Fin 10)
      (Fin 35) (Fin 139)"
  let ?keyed = "\<lparr>NEXT_PUBLIC_GOOGLE_MAPS_API_KEY = Some ''KEY'', GOOGLE_MAPS_API_KEY = None\<rparr>"
  let ?c = "\<lparr>lat = Fin 0, lon = Fin 0\<rparr>"
  have x: "spec_tileX 0 1 = 1" by (simp add: spec_tileX_def)
  have y: "spec_tileY 0 1 = 1" by (simp add: spec_tileY_def)
  have k: "truthy (NEXT_PUBLIC_GOOGLE_MAPS_API_KEY ?keyed)" by (simp add: truthy_def)
  have n: "\<not> truthy (NEXT_PUBLIC_GOOGLE_MAPS_API_KEY noKeys)
      \<and> \<not> truthy (GOOGLE_MAPS_API_KEY noKeys)" by (simp add: truthy_def noKeys_def)
  have r: "- 90 < (0::real) \<and> (0::real) < 90" by simp
  have e: "spec_exactColumn exactMachine 0 1" "spec_equatorRow exactMachine 1"
    "spec_exactRow exactMachine 0 1"
    by (rule exactColumn_exactMachine, rule equatorRow_exactMachine, rule exactRow_exactMachine)
  note t1 = getAerialImageUrl_provider
        [of ?keyed exactMachine blankText ?bnds "Fin 20" "Fin 640" "Fin 640" ?c 0 1 0]
  note t2 = getAerialImageUrl_provider
        [of noKeys exactMachine blankText ?bnds "Fin 20" "Fin 640" "Fin 640" ?c 0 1 0]
  have "\<exists>key. key \<noteq> [] \<and> Some ''KEY'' = Some key
         \<and> getAerialImageUrl exactMachine ?keyed blankText ?bnds (Fin 20) (Fin 640) (Fin 640)
           = ''https://maps.googleapis.com/maps/api/staticmap?center=''
             @ blankText (lat (bounds.center ?bnds)) @ '','' @ blankText (lon (bounds.center ?bnds))
             @ ''&zoom='' @ blankText (Fin 20) @ ''&size='' @ blankText (Fin 640) @ ''x''
             @ blankText (Fin 640) @ ''&maptype=satellite&key='' @ key"
    using t1 k by (simp add: truthy_def)
  then have keyed: "getAerialImageUrl exactMachine ?keyed blankText ?bnds (Fin 20) (Fin 640) (Fin 640)
      = ''https://maps.googleapis.com/maps/api/staticmap?center=,&zoom=&size=x&maptype=satellite&key=KEY''"
    by (auto simp: blankText_def)
  have "getAerialImageUrl exactMachine noKeys blankText ?bnds (Fin 20) (Fin 640) (Fin 640)
          = ''https://server.arcgisonline.com/ArcGIS/rest/services/World_Imagery/MapServer/tile/''
            @ blankText (Fin 20) @ ''/'' @ blankText (tileY exactMachine (bounds.center ?bnds) (Fin 20))
            @ ''/'' @ blankText (tileX exactMachine (bounds.center ?bnds) (Fin 20))"
    using t2 n by blast
  then have tiles: "getAerialImageUrl exactMachine noKeys blankText ?bnds (Fin 20) (Fin 640) (Fin 640)
      = ''https://server.arcgisonline.com/ArcGIS/rest/services/World_Imagery/MapServer/tile///''"
    by (simp add: blankText_def)
  have "tileX exactMachine ?c (Fin 1) = Fin (of_int (spec_tileX 0 1))"
    "tileY exactMachine ?c (Fin 1) = Fin (of_int (spec_tileY 0 1))"
    using t2 r e by blast+
  then show ?thesis
    using keyed tiles e by (simp add: x y truthy_def)
qed

section \<open>ThreeScene: the scene origin and the load counter\<close>

text \<open>
  C9. For a venue that declares a center, the effect sets the scene origin to that point
  and does nothing else: \<open>calculateCenterPoint\<close> is not started, whatever it would
  compute. For a venue that declares none, the effect starts \<open>calculateCenterPoint\<close>
  on the geometry files and the origin is its result.
\<close>

theorem declared_center_is_origin:
  "(FileStructure.center d = Some p \<longrightarrow>
      centerEffect (Some d) = [SetCenter p]
      \<and> resolveCenter calc start (centerEffect (Some d)) = p)
   \<and> (FileStructure.center d = None \<longrightarrow>
      centerEffect (Some d) = [CalculateCenterPoint (geoFiles_paths d)]
      \<and> resolveCenter calc start (centerEffect (Some d)) = calc (geoFiles_paths d))"
  by (simp add: centerEffect_def)

theorem declared_center_is_origin_witness:
  "FileStructure.center NagoyaUnimall = Some (Fin (-268478.06882765563), Fin (-87917.488896069))
   \<and> centerEffect (Some NagoyaUnimall)
      = [SetCenter (Fin (-268478.06882765563), Fin (-87917.488896069))]
   \<and> resolveCenter (\<lambda>files. (Fin 1, Fin 2)) (Fin 0, Fin 0) (centerEffect (Some NagoyaUnimall))
      = (Fin (-268478.06882765563), Fin (-87917.488896069))
   \<and> FileStructure.center (NagoyaUnimall\<lparr>center := None\<rparr>) = None
   \<and> resolveCenter (\<lambda>files. (Fin 1, Fin 2)) (Fin 0, Fin 0)
        (centerEffect (Some (NagoyaUnimall\<lparr>center := None\<rparr>))) = (Fin 1, Fin 2)"
proof -
  have declared: "FileStructure.center NagoyaUnimall
      = Some (Fin (-268478.06882765563), Fin (-87917.488896069))"
    by (simp add: NagoyaUnimall_def)
  have none: "FileStructure.center (NagoyaUnimall\<lparr>center := None\<rparr>) = None"
    by simp
  show ?thesis
    using declared none
      declared_center_is_origin [of NagoyaUnimall
        "(Fin (-268478.06882765563), Fin (-87917.488896069))" "\<lambda>files. (Fin 1, Fin 2)"
        "(Fin 0, Fin 0)"]
      declared_center_is_origin [of "NagoyaUnimall\<lparr>center := None\<rparr>"
        "(Fin 0, Fin 0)" "\<lambda>files. (Fin 1, Fin 2)" "(Fin 0, Fin 0)"]
    by simp
qed

lemma strict_eq_zero: "strict_eq a (Fin 0) = (a = Fin 0)"
  by (auto simp: strict_eq_def)

lemma setup_at_origin: "sceneSetupEffect getFloorNumber selectedData mounted init (Fin 0, Fin 0) = []"
  by (simp add: sceneSetupEffect_def strict_eq_zero split: option.splits)

lemma setup_started_nonzero:
  "sceneSetupEffect getFloorNumber selectedData mounted init c \<noteq> []
     \<Longrightarrow> \<not> (fst c = Fin 0 \<and> snd c = Fin 0)"
  by (auto simp: sceneSetupEffect_def strict_eq_zero split: option.splits if_splits)

text \<open>
  C10. Run with the origin (0, 0), the scene-setup effect returns before it starts any
  load, so the counter keeps its value; this holds whether (0, 0) was declared by the
  venue or computed. If the effect starts a load, a coordinate of the origin is not 0.
\<close>

theorem origin_zero_starts_nothing:
  "sceneSetupEffect getFloorNumber selectedData mounted init (Fin 0, Fin 0) = []
   \<and> foldl settle remaining (sceneSetupEffect getFloorNumber selectedData mounted init (Fin 0, Fin 0))
       = remaining
   \<and> (FileStructure.center d = Some (Fin 0, Fin 0) \<longrightarrow>
        sceneSetupEffect getFloorNumber (Some d) mounted init
          (resolveCenter calc start (centerEffect (Some d))) = [])
   \<and> (FileStructure.center d = None \<and> calc (geoFiles_paths d) = (Fin 0, Fin 0) \<longrightarrow>
        sceneSetupEffect getFloorNumber (Some d) mounted init
          (resolveCenter calc start (centerEffect (Some d))) = [])
   \<and> (sceneSetupEffect getFloorNumber selectedData mounted init c \<noteq> [] \<longrightarrow>
        \<not> (fst c = Fin 0 \<and> snd c = Fin 0))"
  using setup_at_origin setup_started_nonzero [of getFloorNumber selectedData mounted init c]
  by (simp add: centerEffect_def)

theorem origin_zero_starts_nothing_witness:
  "FileStructure.center (NagoyaUnimall\<lparr>center := Some (Fin 0, Fin 0)\<rparr>) = Some (Fin 0, Fin 0)
   \<and> sceneSetupEffect noFloorTag (Some (NagoyaUnimall\<lparr>center := Some (Fin 0, Fin 0)\<rparr>)) True True
        (resolveCenter (\<lambda>files. (Fin 0, Fin 0)) (Fin 0, Fin 0)
           (centerEffect (Some (NagoyaUnimall\<lparr>center := Some (Fin 0, Fin 0)\<rparr>)))) = []
   \<and> FileStructure.center (NagoyaUnimall\<lparr>center := None\<rparr>) = None
   \<and> sceneSetupEffect noFloorTag (Some (NagoyaUnimall\<lparr>center := None\<rparr>)) True True
        (resolveCenter (\<lambda>files. (Fin 0, Fin 0)) (Fin 0, Fin 0)
           (centerEffect (Some (NagoyaUnimall\<lparr>center := None\<rparr>)))) = []
   \<and> sceneSetupEffect noFloorTag (Some NagoyaUnimall) True True
        (Fin (-268478.06882765563), Fin (-87917.488896069)) \<noteq> []
   \<and> \<not> (fst (Fin (-268478.06882765563), Fin (-87917.488896069)) = Fin 0
         \<and> snd (Fin (-268478.06882765563), Fin (-87917.488896069)) = Fin 0)"
proof -
  have started: "sceneSetupEffect noFloorTag (Some NagoyaUnimall) True True
        (Fin (-268478.06882765563), Fin (-87917.488896069)) \<noteq> []"
    by (simp add: sceneSetupEffect_def strict_eq_def geoFiles_paths_def NagoyaUnimall_def)
  show ?thesis
    using started
      origin_zero_starts_nothing [of noFloorTag "Some NagoyaUnimall" True True 13
        "NagoyaUnimall\<lparr>center := Some (Fin 0, Fin 0)\<rparr>" "\<lambda>files. (Fin 0, Fin 0)" "(Fin 0, Fin 0)"
        "(Fin (-268478.06882765563), Fin (-87917.488896069))"]
      origin_zero_starts_nothing [of noFloorTag "Some NagoyaUnimall" True True 13
        "NagoyaUnimall\<lparr>center := None\<rparr>" "\<lambda>files. (Fin 0, Fin 0)" "(Fin 0, Fin 0)"
        "(Fin (-268478.06882765563), Fin (-87917.488896069))"]
    by simp
qed

lemma foldl_settle: "foldl settle n ops = n - int (length ops)"
  by (induction ops arbitrary: n) (simp_all add: settle_def)

lemma truthy_terrainFile_path: "truthy (terrainFile_path d) = truthy (terrainFile d)"
  by (auto simp: terrainFile_path_def truthy_def interpolate_def split: option.splits)

lemma totalFileCount_expected: "totalFileCount (Some d) = Inr (spec_expectedOperations d)"
  by (simp add: totalFileCount_def spec_expectedOperations_def truthy_terrainFile_path
      geoFiles_paths_def networkFile_paths_def split: option.splits)

lemma setup_starts_expected:
  assumes "\<not> (fst c = Fin 0 \<and> snd c = Fin 0)"
  shows "int (length (sceneSetupEffect getFloorNumber (Some d) True True c))
           = spec_expectedOperations d"
  using assms
  by (auto simp add: sceneSetupEffect_def spec_expectedOperations_def strict_eq_zero
      truthy_terrainFile_path geoFiles_paths_def networkFile_paths_def split: option.splits)

text \<open>
  C5. The counter starts at the number of geometry files plus one for a network pair plus
  one for a terrain file. The scene-setup effect, once it runs with an origin other
  than (0, 0), starts exactly that many operations. Each completion takes one off the
  counter and none adds to it, so after \<open>k\<close> completions the counter is the total minus
  \<open>k\<close>, and when the started operations have all completed, in whatever order, it is 0.
\<close>

theorem load_counter_reaches_zero:
  assumes "\<not> (fst c = Fin 0 \<and> snd c = Fin 0)"
    and "mset order = mset (sceneSetupEffect getFloorNumber (Some d) True True c)"
  shows "totalFileCount (Some d) = Inr (spec_expectedOperations d)
       \<and> int (length (sceneSetupEffect getFloorNumber (Some d) True True c))
           = spec_expectedOperations d
       \<and> settle remaining op = remaining - 1
       \<and> (\<forall>k \<le> length order.
            foldl settle (spec_expectedOperations d) (take k order)
              = spec_expectedOperations d - int k)
       \<and> foldl settle (spec_expectedOperations d) order = 0"
proof -
  have "length order = length (sceneSetupEffect getFloorNumber (Some d) True True c)"
    using assms(2) by (rule mset_eq_length)
  then have "int (length order) = spec_expectedOperations d"
    using setup_starts_expected [OF assms(1)] by simp
  then show ?thesis
    using setup_starts_expected [OF assms(1)]
    by (simp add: totalFileCount_expected foldl_settle settle_def)
qed

theorem load_counter_reaches_zero_witness:
  "\<not> (fst (Fin (-268478.06882765563), Fin (-87917.488896069)) = Fin 0
       \<and> snd (Fin (-268478.06882765563), Fin (-87917.488896069)) = Fin 0)
   \<and> mset (rev (sceneSetupEffect noFloorTag (Some NagoyaUnimall) True True
             (Fin (-268478.06882765563), Fin (-87917.488896069))))
      = mset (sceneSetupEffect noFloorTag (Some NagoyaUnimall) True True
             (Fin (-268478.06882765563), Fin (-87917.488896069)))
   \<and> totalFileCount (Some NagoyaUnimall) = Inr 13
   \<and> foldl settle 13 (rev (sceneSetupEffect noFloorTag (Some NagoyaUnimall) True True
         (Fin (-268478.06882765563), Fin (-87917.488896069)))) = 0"
proof -
  let ?c = "(Fin (-268478.06882765563), Fin (-87917.488896069))"
  have nz: "\<not> (fst ?c = Fin 0 \<and> snd ?c = Fin 0)" by simp
  have perm: "mset (rev (sceneSetupEffect noFloorTag (Some NagoyaUnimall) True True ?c))
      = mset (sceneSetupEffect noFloorTag (Some NagoyaUnimall) True True ?c)"
    by simp
  have n: "spec_expectedOperations NagoyaUnimall = 13"
    by (simp add: spec_expectedOperations_def NagoyaUnimall_def truthy_def)
  show ?thesis
    using load_counter_reaches_zero [OF nz perm] nz perm n by simp
qed

end
